theory Spec2Isabelle
  imports Main
begin

section \<open>JSON values and the Python operations applied to them\<close>

text \<open>
  Every payload handled by \<^verbatim>\<open>bulk_ingest.py\<close> and \<^verbatim>\<open>database.py\<close> is a
  value parsed from JSON. A dict is an association list read through \<open>map_of\<close>
  (the first binding of a key is the dict's entry for it). Numbers are integers;
  the sources never compute with a number of a payload.
\<close>

datatype json =
    JNull
  | JBool bool
  | JNum int
  | JStr string
  | JArr "json list"
  | JObj "(string \<times> json) list"

type_synonym dict = "(string \<times> json) list"

text \<open>The exceptions of the modelled code; \<open>str(e)\<close> is kept as the exception itself.\<close>

datatype exn =
    AttributeError
  | TypeError
  | KeyError
  | IndexError
  | DbError
  | ClientError string

text \<open>Python truth value: \<open>None\<close>, \<open>False\<close>, \<open>0\<close>, \<open>''\<close>, \<open>[]\<close>, \<open>{}\<close> are false.\<close>

fun truthy :: "json \<Rightarrow> bool" where
  "truthy JNull = False"
| "truthy (JBool b) = b"
| "truthy (JNum n) = (n \<noteq> 0)"
| "truthy (JStr s) = (s \<noteq> [])"
| "truthy (JArr xs) = (xs \<noteq> [])"
| "truthy (JObj kvs) = (kvs \<noteq> [])"

text \<open>\<open>k in d\<close>, \<open>d.get(k)\<close> and \<open>d.get(k, default)\<close> on a dict.\<close>

definition has_key :: "dict \<Rightarrow> string \<Rightarrow> bool" where
  "has_key d k = (map_of d k \<noteq> None)"

definition dict_get_or :: "dict \<Rightarrow> string \<Rightarrow> json \<Rightarrow> json" where
  "dict_get_or d k dflt = (case map_of d k of None \<Rightarrow> dflt | Some v \<Rightarrow> v)"

definition dict_get :: "dict \<Rightarrow> string \<Rightarrow> json" where
  "dict_get d k = dict_get_or d k JNull"

text \<open>\<open>x.get(k)\<close> on any value: only a dict has the method.\<close>

fun py_get :: "json \<Rightarrow> string \<Rightarrow> exn + json" where
  "py_get (JObj d) k = Inr (dict_get d k)"
| "py_get _ k = Inl AttributeError"

text \<open>
  \<open>x[0]\<close> on any value: the first element of a list, the first character of a
  string, \<open>KeyError\<close> on a dict (its keys are strings), \<open>TypeError\<close> otherwise.
\<close>

fun py_index0 :: "json \<Rightarrow> exn + json" where
  "py_index0 (JArr (x # xs)) = Inr x"
| "py_index0 (JArr []) = Inl IndexError"
| "py_index0 (JStr (c # cs)) = Inr (JStr [c])"
| "py_index0 (JStr []) = Inl IndexError"
| "py_index0 (JObj d) = Inl KeyError"
| "py_index0 _ = Inl TypeError"

section \<open>The store\<close>

text \<open>
  A statement parameter is a Python value handed to the driver: a payload value as
  it is, the text \<open>json.dumps(v)\<close> (kept as the value it serialises), a timestamp
  of the clock, or the text of an exception.
\<close>

datatype param =
    Plain json
  | Dumps json
  | Timestamp nat
  | ErrorText exn

type_synonym params = "(string \<times> param) list"

text \<open>\<open>json.dumps(v) if v else None\<close>\<close>

definition dumps_or_none :: "json \<Rightarrow> param" where
  "dumps_or_none v = (if truthy v then Dumps v else Plain JNull)"

text \<open>
  A row has the serial \<open>id\<close> and its columns by name. A column that no statement
  has written yet (one filled by a default of the schema) is absent from the map.
\<close>

record row =
  row_id :: nat
  cols :: "string \<rightharpoonup> param"

record db =
  tables :: "string \<Rightarrow> row list"
  serial :: "string \<Rightarrow> nat"
  clock :: nat

text \<open>The six SQL statements of \<^verbatim>\<open>database.py\<close>.\<close>

datatype sql =
    UpsertBill
  | UpsertMember
  | UpsertAmendment
  | UpsertCommittee
  | InsertSyncLog
  | UpdateSyncLog

fun table_of :: "sql \<Rightarrow> string" where
  "table_of UpsertBill = ''bills''"
| "table_of UpsertMember = ''members''"
| "table_of UpsertAmendment = ''amendments''"
| "table_of UpsertCommittee = ''committees''"
| "table_of InsertSyncLog = ''api_sync_log''"
| "table_of UpdateSyncLog = ''api_sync_log''"

text \<open>The columns of \<open>ON CONFLICT (...)\<close>.\<close>

fun conflict_target :: "sql \<Rightarrow> string list" where
  "conflict_target UpsertBill = [''congress'', ''bill_type'', ''bill_number'']"
| "conflict_target UpsertMember = [''bioguide_id'']"
| "conflict_target UpsertAmendment = [''congress'', ''amendment_type'', ''amendment_number'']"
| "conflict_target UpsertCommittee = [''system_code'']"
| "conflict_target _ = []"

text \<open>
  The columns assigned from \<open>EXCLUDED\<close> by \<open>DO UPDATE SET\<close>; for the sync log, the
  columns assigned by \<open>UPDATE ... SET\<close>. \<open>updated_at = CURRENT_TIMESTAMP\<close> is
  handled apart, in \<open>update_row\<close>.
\<close>

fun update_set :: "sql \<Rightarrow> string list" where
  "update_set UpsertBill =
     [''title'', ''update_date'', ''update_date_including_text'', ''latest_action'',
      ''cosponsors_count'', ''actions'', ''summaries'', ''amendments'', ''texts'',
      ''titles'', ''is_law'', ''law_number'', ''law_type'', ''raw_data'']"
| "update_set UpsertMember =
     [''first_name'', ''last_name'', ''party'', ''state'', ''district'', ''terms'']"
| "update_set UpsertAmendment =
     [''purpose'', ''description'', ''latest_action'', ''actions'', ''raw_data'']"
| "update_set UpsertCommittee = [''name'', ''chamber'', ''type'', ''subcommittees'']"
| "update_set InsertSyncLog = []"
| "update_set UpdateSyncLog =
     [''status'', ''completed_at'', ''records_processed'', ''records_created'',
      ''records_updated'', ''records_failed'', ''error_message'']"

text \<open>
  The row the arbiter index finds for the proposed values: every conflict column
  is equal and not NULL (a unique index never takes two NULLs for equal).
\<close>

definition key_match :: "string list \<Rightarrow> params \<Rightarrow> row \<Rightarrow> bool" where
  "key_match kc ps r =
     list_all (\<lambda>c. map_of ps c \<noteq> None \<and> map_of ps c \<noteq> Some (Plain JNull)
                    \<and> cols r c = map_of ps c) kc"

definition update_row :: "string list \<Rightarrow> nat \<Rightarrow> params \<Rightarrow> row \<Rightarrow> row" where
  "update_row uc now ps r =
     r\<lparr>cols := (\<lambda>c. if c \<in> set uc then map_of ps c else cols r c)
                  (''updated_at'' \<mapsto> Timestamp now)\<rparr>"

text \<open>
  \<open>INSERT ... ON CONFLICT (kc) DO UPDATE SET uc RETURNING id\<close> on the rows of one
  table: the conflicting row is updated in place, or the proposed row is appended
  with the identifier \<open>i\<close>; the identifier of the affected row is returned.
\<close>

fun upsert_rows ::
  "string list \<Rightarrow> string list \<Rightarrow> nat \<Rightarrow> params \<Rightarrow> nat \<Rightarrow> row list \<Rightarrow> row list \<times> nat" where
  "upsert_rows kc uc now ps i [] = ([\<lparr>row_id = i, cols = map_of ps\<rparr>], i)"
| "upsert_rows kc uc now ps i (r # rs) =
     (if key_match kc ps r then (update_row uc now ps r # rs, row_id r)
      else (case upsert_rows kc uc now ps i rs of (rs', j) \<Rightarrow> (r # rs', j)))"

text \<open>\<open>UPDATE api_sync_log SET ... WHERE id = :log_id\<close>\<close>

definition set_cols :: "string list \<Rightarrow> params \<Rightarrow> row \<Rightarrow> row" where
  "set_cols uc ps r = r\<lparr>cols := (\<lambda>c. if c \<in> set uc then map_of ps c else cols r c)\<rparr>"

definition update_where_id :: "string list \<Rightarrow> params \<Rightarrow> row list \<Rightarrow> row list" where
  "update_where_id uc ps rs =
     map (\<lambda>r. if map_of ps ''log_id'' = Some (Plain (JNum (int (row_id r))))
               then set_cols uc ps r else r) rs"

text \<open>
  What a statement does once the database takes it: the rows it returns (their
  \<open>id\<close>) and the new state. The sequence of a table is advanced by every INSERT,
  also by one that ends in the update of a conflicting row.
\<close>

definition run_sql :: "sql \<Rightarrow> params \<Rightarrow> db \<Rightarrow> nat list \<times> db" where
  "run_sql q ps d =
     (let t = table_of q; rs = tables d t; i = Suc (serial d t) in
      case q of
        UpdateSyncLog \<Rightarrow>
          ([], d\<lparr>tables := (tables d)(t := update_where_id (update_set q) ps rs)\<rparr>)
      | InsertSyncLog \<Rightarrow>
          ([i], d\<lparr>tables := (tables d)(t := rs @ [\<lparr>row_id = i, cols = map_of ps\<rparr>]),
                  serial := (serial d)(t := i)\<rparr>)
      | _ \<Rightarrow>
          (case upsert_rows (conflict_target q) (update_set q) (clock d) ps i rs of
             (rs', j) \<Rightarrow>
               ([j], d\<lparr>tables := (tables d)(t := rs'), serial := (serial d)(t := i)\<rparr>)))"

section \<open>The environment: transport client and database server\<close>

text \<open>
  \<open>CDGClient.get\<close> answers a request with a body and a status code, or raises.
  The client is not part of the sources, so it is a parameter: its answer may
  depend on every request made before. The schema of the database is not part of
  the sources either: \<open>db_accepts\<close> says whether the server executes a statement
  in a state (constraints, types, connectivity) or raises.
\<close>

datatype response = Raise (raised_exn: exn) | Reply (reply_body: json) (reply_status: int)

record env =
  client_get :: "json list \<Rightarrow> json \<Rightarrow> response"
  db_accepts :: "db \<Rightarrow> sql \<Rightarrow> params \<Rightarrow> bool"

text \<open>
  \<open>DatabaseManager.execute_sql\<close>: the session commits, or rolls back and raises
  again. Time passes either way.
\<close>

definition execute_sql :: "env \<Rightarrow> sql \<Rightarrow> params \<Rightarrow> db \<Rightarrow> (exn + nat list) \<times> db" where
  "execute_sql e q ps d =
     (let d1 = d\<lparr>clock := Suc (clock d)\<rparr> in
      if db_accepts e d q ps
      then (case run_sql q ps d1 of (res, d') \<Rightarrow> (Inr res, d'))
      else (Inl DbError, d1))"

text \<open>
  The tail shared by the four insert methods:
  \<^verbatim>\<open>try: result = self.execute_sql(sql, params); return result[0]['id'] if result else None\<close>
  \<^verbatim>\<open>except Exception as e: print(...); return None\<close>
\<close>

definition returning_id :: "env \<Rightarrow> sql \<Rightarrow> params \<Rightarrow> db \<Rightarrow> (exn + nat option) \<times> db" where
  "returning_id e q ps d =
     (case execute_sql e q ps d of
        (Inl ex, d') \<Rightarrow> (Inr None, d')
      | (Inr [], d') \<Rightarrow> (Inr None, d')
      | (Inr (i # _), d') \<Rightarrow> (Inr (Some i), d'))"

subsection \<open>insert_bill\<close>

text \<open>
  \<^verbatim>\<open>bill_data.get('laws', [{}])[0].get(k) if bill_data.get('laws') else None\<close>
\<close>

definition law_field :: "dict \<Rightarrow> string \<Rightarrow> exn + json" where
  "law_field b k =
     (if truthy (dict_get b ''laws'')
      then (case py_index0 (dict_get_or b ''laws'' (JArr [JObj []])) of
              Inl ex \<Rightarrow> Inl ex
            | Inr x \<Rightarrow> py_get x k)
      else Inr JNull)"

definition bill_params :: "dict \<Rightarrow> exn + params" where
  "bill_params b =
     (case law_field b ''number'' of Inl ex \<Rightarrow> Inl ex | Inr ln \<Rightarrow>
      (case law_field b ''type'' of Inl ex \<Rightarrow> Inl ex | Inr lt \<Rightarrow>
        Inr [(''congress'', Plain (dict_get b ''congress'')),
             (''bill_type'', Plain (dict_get b ''type'')),
             (''bill_number'', Plain (dict_get b ''number'')),
             (''title'', Plain (dict_get b ''title'')),
             (''origin_chamber'', Plain (dict_get b ''originChamber'')),
             (''origin_chamber_code'', Plain (dict_get b ''originChamberCode'')),
             (''update_date'', Plain (dict_get b ''updateDate'')),
             (''update_date_including_text'', Plain (dict_get b ''updateDateIncludingText'')),
             (''introduced_date'', Plain (dict_get b ''introducedDate'')),
             (''constitution_authority_statement_text'',
                Plain (dict_get b ''constitutionAuthorityStatementText'')),
             (''policy_area'', dumps_or_none (dict_get b ''policyArea'')),
             (''subjects'', dumps_or_none (dict_get b ''subjects'')),
             (''latest_action'', dumps_or_none (dict_get b ''latestAction'')),
             (''sponsors'', Dumps (dict_get_or b ''sponsors'' (JArr []))),
             (''cosponsors_count'', Plain (dict_get_or b ''cosponsorsCount'' (JNum 0))),
             (''committees'', Dumps (dict_get_or b ''committees'' (JArr []))),
             (''related_bills'', Dumps (dict_get_or b ''relatedBills'' (JArr []))),
             (''actions'', Dumps (dict_get_or b ''actions'' (JArr []))),
             (''summaries'', Dumps (dict_get_or b ''summaries'' (JArr []))),
             (''amendments'', Dumps (dict_get_or b ''amendments'' (JArr []))),
             (''texts'', Dumps (dict_get_or b ''texts'' (JArr []))),
             (''titles'', Dumps (dict_get_or b ''titles'' (JArr []))),
             (''law_number'', Plain ln),
             (''law_type'', Plain lt),
             (''is_law'', Plain (JBool (truthy (dict_get b ''laws'')))),
             (''raw_data'', Dumps (JObj b))]))"

text \<open>
  The parameters are built before the \<open>try\<close>: an exception there leaves the
  method. A value that is no dict has no \<open>get\<close>.
\<close>

fun insert_bill :: "env \<Rightarrow> json \<Rightarrow> db \<Rightarrow> (exn + nat option) \<times> db" where
  "insert_bill e (JObj b) d =
     (case bill_params b of
        Inl ex \<Rightarrow> (Inl ex, d)
      | Inr ps \<Rightarrow> returning_id e UpsertBill ps d)"
| "insert_bill e _ d = (Inl AttributeError, d)"

subsection \<open>insert_member, insert_amendment, insert_committee\<close>

definition member_params :: "dict \<Rightarrow> params" where
  "member_params m =
     [(''bioguide_id'', Plain (dict_get m ''bioguideId'')),
      (''first_name'', Plain (dict_get m ''firstName'')),
      (''last_name'', Plain (dict_get m ''lastName'')),
      (''middle_name'', Plain (dict_get m ''middleName'')),
      (''suffix'', Plain (dict_get m ''suffix'')),
      (''nickname'', Plain (dict_get m ''nickname'')),
      (''party'', Plain (dict_get m ''party'')),
      (''state'', Plain (dict_get m ''state'')),
      (''district'', Plain (dict_get m ''district'')),
      (''birth_year'', Plain (dict_get m ''birthYear'')),
      (''death_year'', Plain (dict_get m ''deathYear'')),
      (''terms'', Dumps (dict_get_or m ''terms'' (JArr [])))]"

fun insert_member :: "env \<Rightarrow> json \<Rightarrow> db \<Rightarrow> (exn + nat option) \<times> db" where
  "insert_member e (JObj m) d = returning_id e UpsertMember (member_params m) d"
| "insert_member e _ d = (Inl AttributeError, d)"

text \<open>\<^verbatim>\<open>amendment_data.get('amendedBill', {}).get(k)\<close>\<close>

definition amended_bill_field :: "dict \<Rightarrow> string \<Rightarrow> exn + json" where
  "amended_bill_field a k = py_get (dict_get_or a ''amendedBill'' (JObj [])) k"

definition amendment_params :: "dict \<Rightarrow> exn + params" where
  "amendment_params a =
     (case amended_bill_field a ''congress'' of Inl ex \<Rightarrow> Inl ex | Inr bc \<Rightarrow>
      (case amended_bill_field a ''type'' of Inl ex \<Rightarrow> Inl ex | Inr bt \<Rightarrow>
       (case amended_bill_field a ''number'' of Inl ex \<Rightarrow> Inl ex | Inr bn \<Rightarrow>
        Inr [(''congress'', Plain (dict_get a ''congress'')),
             (''amendment_type'', Plain (dict_get a ''type'')),
             (''amendment_number'', Plain (dict_get a ''number'')),
             (''bill_congress'', Plain bc),
             (''bill_type'', Plain bt),
             (''bill_number'', Plain bn),
             (''purpose'', Plain (dict_get a ''purpose'')),
             (''description'', Plain (dict_get a ''description'')),
             (''chamber'', Plain (dict_get a ''chamber'')),
             (''amendment_to_amendment'', dumps_or_none (dict_get a ''amendedAmendment'')),
             (''sponsors'', Dumps (dict_get_or a ''sponsors'' (JArr []))),
             (''cosponsors'', Dumps (dict_get_or a ''cosponsors'' (JArr []))),
             (''proposed_date'', Plain (dict_get a ''proposedDate'')),
             (''submitted_date'', Plain (dict_get a ''submittedDate'')),
             (''latest_action'', dumps_or_none (dict_get a ''latestAction'')),
             (''actions'', Dumps (dict_get_or a ''actions'' (JArr []))),
             (''raw_data'', Dumps (JObj a))])))"

fun insert_amendment :: "env \<Rightarrow> json \<Rightarrow> db \<Rightarrow> (exn + nat option) \<times> db" where
  "insert_amendment e (JObj a) d =
     (case amendment_params a of
        Inl ex \<Rightarrow> (Inl ex, d)
      | Inr ps \<Rightarrow> returning_id e UpsertAmendment ps d)"
| "insert_amendment e _ d = (Inl AttributeError, d)"

definition committee_params :: "dict \<Rightarrow> params" where
  "committee_params c =
     [(''system_code'', Plain (dict_get c ''systemCode'')),
      (''name'', Plain (dict_get c ''name'')),
      (''chamber'', Plain (dict_get c ''chamber'')),
      (''type'', Plain (dict_get c ''type'')),
      (''subcommittees'', Dumps (dict_get_or c ''subcommittees'' (JArr []))),
      (''parent_committee_system_code'', Plain (dict_get c ''parentCommitteeCode'')),
      (''is_subcommittee'', Plain (dict_get_or c ''isCurrent'' (JBool False)))]"

fun insert_committee :: "env \<Rightarrow> json \<Rightarrow> db \<Rightarrow> (exn + nat option) \<times> db" where
  "insert_committee e (JObj c) d = returning_id e UpsertCommittee (committee_params c) d"
| "insert_committee e _ d = (Inl AttributeError, d)"

subsection \<open>The sync log\<close>

definition num :: "nat \<Rightarrow> param" where
  "num n = Plain (JNum (int n))"

text \<open>
  \<open>log_sync\<close> with the keyword arguments its callers give (endpoint, sync_type,
  parameters); the other arguments keep their defaults. There is no \<open>try\<close>:
  an exception of the statement leaves the method.
\<close>

definition log_sync_params :: "string \<Rightarrow> string \<Rightarrow> json \<Rightarrow> nat \<Rightarrow> params" where
  "log_sync_params endpoint sync_type parameters now =
     [(''endpoint'', Plain (JStr endpoint)),
      (''sync_type'', Plain (JStr sync_type)),
      (''started_at'', Timestamp now),
      (''status'', Plain (JStr ''running'')),
      (''records_processed'', num 0),
      (''records_created'', num 0),
      (''records_updated'', num 0),
      (''records_failed'', num 0),
      (''error_message'', Plain JNull),
      (''parameters'', dumps_or_none parameters)]"

definition log_sync :: "env \<Rightarrow> string \<Rightarrow> string \<Rightarrow> json \<Rightarrow> db \<Rightarrow> (exn + nat option) \<times> db" where
  "log_sync e endpoint sync_type parameters d =
     (case execute_sql e InsertSyncLog
             (log_sync_params endpoint sync_type parameters (clock d)) d of
        (Inl ex, d') \<Rightarrow> (Inl ex, d')
      | (Inr [], d') \<Rightarrow> (Inr None, d')
      | (Inr (i # _), d') \<Rightarrow> (Inr (Some i), d'))"

text \<open>
  \<open>update_sync_log\<close>: the counters default to 0 and the message to \<open>None\<close>
  where the caller leaves them out; \<open>completed_at\<close> is \<open>datetime.now()\<close>.
\<close>

definition update_sync_log_params ::
  "nat option \<Rightarrow> string \<Rightarrow> nat \<Rightarrow> nat \<Rightarrow> nat \<Rightarrow> nat \<Rightarrow> exn option \<Rightarrow> nat \<Rightarrow> params" where
  "update_sync_log_params log_id status rp rc ru rf error_message now =
     [(''log_id'', (case log_id of None \<Rightarrow> Plain JNull | Some i \<Rightarrow> num i)),
      (''status'', Plain (JStr status)),
      (''completed_at'', Timestamp now),
      (''records_processed'', num rp),
      (''records_created'', num rc),
      (''records_updated'', num ru),
      (''records_failed'', num rf),
      (''error_message'',
         (case error_message of None \<Rightarrow> Plain JNull | Some ex \<Rightarrow> ErrorText ex))]"

definition update_sync_log ::
  "env \<Rightarrow> nat option \<Rightarrow> string \<Rightarrow> nat \<Rightarrow> nat \<Rightarrow> nat \<Rightarrow> nat \<Rightarrow> exn option \<Rightarrow> db \<Rightarrow> (exn + unit) \<times> db" where
  "update_sync_log e log_id status rp rc ru rf error_message d =
     (case execute_sql e UpdateSyncLog
             (update_sync_log_params log_id status rp rc ru rf error_message (clock d)) d of
        (Inl ex, d') \<Rightarrow> (Inl ex, d')
      | (Inr res, d') \<Rightarrow> (Inr (), d'))"

section \<open>Pagination\<close>

text \<open>\<open>str(n)\<close> of an integer, for the f-strings that build endpoints.\<close>

fun str_nat :: "nat \<Rightarrow> string" where
  "str_nat n =
     (if n < 10 then [char_of (48 + n)]
      else str_nat (n div 10) @ [char_of (48 + n mod 10)])"

declare str_nat.simps [simp del]

definition str_int :: "int \<Rightarrow> string" where
  "str_int i = (if i < 0 then CHR ''-'' # str_nat (nat (- i)) else str_nat (nat i))"

text \<open>
  \<open>_extract_items\<close> on a dict: the first of the known keys that the body has;
  its value if that is a list, else the value as the only item.
\<close>

definition item_keys :: "string list" where
  "item_keys = [''bills'', ''members'', ''amendments'', ''committees'', ''nominations'',
                ''treaties'', ''reports'', ''hearings'', ''items'']"

fun extract_from :: "string list \<Rightarrow> dict \<Rightarrow> json list" where
  "extract_from [] data = []"
| "extract_from (key # keys) data =
     (if has_key data key
      then (case dict_get data key of JArr items \<Rightarrow> items | items \<Rightarrow> [items])
      else extract_from keys data)"

definition extract_items :: "dict \<Rightarrow> json list" where
  "extract_items data = extract_from item_keys data"

text \<open>
  The part of the loop body after the status check: the items appended to
  \<open>all_items\<close>, and the next cursor or the exception that ends the body.
  On a dict, \<open>_extract_items\<close> cannot raise; \<open>pagination.get\<close> raises when
  \<open>pagination\<close> is no dict, after the items were appended. On a body that is no
  dict, either \<open>key in data\<close> or \<open>data[key]\<close> raises inside \<open>_extract_items\<close>,
  or it returns \<open>[]\<close> and \<open>data.get\<close> raises: nothing is appended and the body
  ends in an exception, which the handler only logs. For such a body the kind of
  the exception is not told apart further (\<open>TypeError\<close> where \<open>in\<close> is
  undefined, \<open>AttributeError\<close> stands for the string and list cases).
\<close>

fun fetch_body :: "json \<Rightarrow> json list \<times> (exn + json)" where
  "fetch_body (JObj data) =
     (extract_items data, py_get (dict_get_or data ''pagination'' (JObj [])) ''next'')"
| "fetch_body (JStr s) = ([], Inl AttributeError)"
| "fetch_body (JArr xs) = ([], Inl AttributeError)"
| "fetch_body _ = ([], Inl TypeError)"

text \<open>
  The \<open>while\<close> loop of \<open>_fetch_paginated\<close>. The state is the log of requests made
  so far, \<open>next_url\<close>, \<open>page\<close> and \<open>all_items\<close>. Nothing bounds the loop when
  \<open>max_pages\<close> is \<open>None\<close>: \<open>None\<close> of the option type is a run that never ends.
  \<open>time.sleep\<close> of \<open>_rate_limit\<close> changes no value.
\<close>

partial_function (option) fetch_loop ::
  "env \<Rightarrow> int option \<Rightarrow> json list \<Rightarrow> json \<Rightarrow> int \<Rightarrow> json list \<Rightarrow> (json list \<times> json list) option" where
  "fetch_loop e max_pages reqs next_url page all_items =
     (if truthy next_url \<and> (case max_pages of None \<Rightarrow> True | Some m \<Rightarrow> page < m)
      then (case client_get e reqs next_url of
              Raise ex \<Rightarrow> Some (all_items, reqs @ [next_url])
            | Reply data status_code \<Rightarrow>
                if status_code \<noteq> 200 then Some (all_items, reqs @ [next_url])
                else (case fetch_body data of
                        (items, Inl ex) \<Rightarrow> Some (all_items @ items, reqs @ [next_url])
                      | (items, Inr nxt) \<Rightarrow>
                          fetch_loop e max_pages (reqs @ [next_url]) nxt (page + 1)
                            (all_items @ items)))
      else Some (all_items, reqs))"

definition first_url :: "string \<Rightarrow> int \<Rightarrow> json" where
  "first_url endpoint limit = JStr (endpoint @ ''?limit='' @ str_int limit @ ''&offset=0'')"

text \<open>\<open>_fetch_paginated\<close>: the items, and the request log it leaves.\<close>

definition fetch_paginated ::
  "env \<Rightarrow> string \<Rightarrow> int \<Rightarrow> int option \<Rightarrow> json list \<Rightarrow> (json list \<times> json list) option" where
  "fetch_paginated e endpoint limit max_pages reqs =
     fetch_loop e max_pages reqs (first_url endpoint limit) 0 []"

section \<open>The ingestor\<close>

record stats =
  processed :: nat
  created :: nat
  updated :: nat
  failed :: nat
  errors :: "exn list"

definition zero_stats :: stats where
  "zero_stats = \<lparr>processed = 0, created = 0, updated = 0, failed = 0, errors = []\<rparr>"

text \<open>
  What a run reads and writes: the database, the log of requests sent to the
  API, and \<open>self.stats\<close> of the ingestor.
\<close>

record world =
  store :: db
  requests :: "json list"
  self_stats :: stats

text \<open>
  The counting around one item: \<open>if id: created += 1 else: updated += 1\<close> and
  \<open>processed += 1\<close> when the body returns, \<open>failed += 1\<close> and the message
  appended when it raises. \<open>None\<close> and \<open>0\<close> are false.
\<close>

fun count_item :: "exn + nat option \<Rightarrow> stats \<Rightarrow> stats" where
  "count_item (Inr rid) st =
     (if (case rid of None \<Rightarrow> False | Some i \<Rightarrow> i \<noteq> 0)
      then st\<lparr>created := created st + 1, processed := processed st + 1\<rparr>
      else st\<lparr>updated := updated st + 1, processed := processed st + 1\<rparr>)"
| "count_item (Inl ex) st = st\<lparr>failed := failed st + 1, errors := errors st @ [ex]\<rparr>"

text \<open>
  The \<open>for\<close> loop with its inner \<open>try\<close>, the same in the four methods; \<open>body\<close> is
  what the inner \<open>try\<close> does up to the insert.
\<close>

fun process_items ::
  "(json \<Rightarrow> world \<Rightarrow> (exn + nat option) \<times> world) \<Rightarrow> json list \<Rightarrow> world \<Rightarrow> world" where
  "process_items body [] w = w"
| "process_items body (x # xs) w =
     (case body x w of
        (r, w') \<Rightarrow> process_items body xs (w'\<lparr>self_stats := count_item r (self_stats w')\<rparr>))"

text \<open>
  \<open>s.replace(old, new)\<close>: every occurrence, left to right, without overlap; with
  an empty \<open>old\<close>, \<open>new\<close> goes before every character and at the end.
\<close>

function str_replace :: "string \<Rightarrow> string \<Rightarrow> string \<Rightarrow> string" where
  "str_replace old new [] = (if old = [] then new else [])"
| "str_replace old new (c # cs) =
     (if old = [] then new @ c # str_replace old new cs
      else if take (length old) (c # cs) = old
           then new @ str_replace old new (drop (length old) (c # cs))
           else c # str_replace old new cs)"
  by pat_completeness auto
termination
  by (relation "measure (\<lambda>(old, new, s). length s)") (auto simp: neq_Nil_conv)

text \<open>Calling the client: the request is logged, the answer depends on the log.\<close>

definition call_client :: "env \<Rightarrow> json \<Rightarrow> world \<Rightarrow> response \<times> world" where
  "call_client e url w = (client_get e (requests w) url, w\<lparr>requests := requests w @ [url]\<rparr>)"

text \<open>
  \<open>detail.get(key, item)\<close> on the body of a detail answer; the status code is
  dropped by the source (\<open>detail_data, _ = ...\<close>).
\<close>

fun detail_or :: "response \<Rightarrow> string \<Rightarrow> json \<Rightarrow> exn + json" where
  "detail_or (Raise ex) key item = Inl ex"
| "detail_or (Reply (JObj detail) status_code) key item = Inr (dict_get_or detail key item)"
| "detail_or (Reply _ status_code) key item = Inl AttributeError"

text \<open>
  The detail fetch of \<open>ingest_bills\<close> (the lines before the insert):
  \<^verbatim>\<open>if 'title' not in bill_data or not bill_data.get('title'):\<close>
  \<^verbatim>\<open>    detail_endpoint = bill_data.get('url', '').replace('https://api.congress.gov/v3/', '')\<close>
  \<^verbatim>\<open>    if detail_endpoint: ...; bill_data = detail_data.get('bill', bill_data)\<close>
  On a string or a list \<open>in\<close> is defined and \<open>get\<close> is not; on the other values
  that are no dict \<open>in\<close> raises \<open>TypeError\<close>.
\<close>

fun enrich_bill :: "env \<Rightarrow> json \<Rightarrow> world \<Rightarrow> (exn + json) \<times> world" where
  "enrich_bill e (JObj b) w =
     (if \<not> has_key b ''title'' \<or> \<not> truthy (dict_get b ''title'')
      then (case dict_get_or b ''url'' (JStr []) of
              JStr u \<Rightarrow>
                (let detail_endpoint = str_replace ''https://api.congress.gov/v3/'' [] u in
                 if detail_endpoint \<noteq> []
                 then (case call_client e (JStr detail_endpoint) w of
                         (resp, w') \<Rightarrow> (detail_or resp ''bill'' (JObj b), w'))
                 else (Inr (JObj b), w))
            | _ \<Rightarrow> (Inl AttributeError, w))
      else (Inr (JObj b), w))"
| "enrich_bill e (JStr s) w = (Inl AttributeError, w)"
| "enrich_bill e (JArr xs) w = (Inl AttributeError, w)"
| "enrich_bill e _ w = (Inl TypeError, w)"

definition store_with ::
  "(db \<Rightarrow> (exn + nat option) \<times> db) \<Rightarrow> world \<Rightarrow> (exn + nat option) \<times> world" where
  "store_with f w = (case f (store w) of (r, d') \<Rightarrow> (r, w\<lparr>store := d'\<rparr>))"

definition bill_item :: "env \<Rightarrow> json \<Rightarrow> world \<Rightarrow> (exn + nat option) \<times> world" where
  "bill_item e bill_data w =
     (case enrich_bill e bill_data w of
        (Inl ex, w') \<Rightarrow> (Inl ex, w')
      | (Inr bill_data', w') \<Rightarrow> store_with (insert_bill e bill_data') w')"

text \<open>
  \<open>f"member/{bioguide_id}"\<close>. The text of a list or a dict (Python's \<open>repr\<close>)
  is not spelled out: such a request keeps the value beside the prefix.
\<close>

fun member_endpoint :: "json \<Rightarrow> json" where
  "member_endpoint (JStr s) = JStr (''member/'' @ s)"
| "member_endpoint (JNum n) = JStr (''member/'' @ str_int n)"
| "member_endpoint (JBool b) = JStr (''member/'' @ (if b then ''True'' else ''False''))"
| "member_endpoint JNull = JStr ''member/None''"
| "member_endpoint v = JArr [JStr ''member/'', v]"

definition member_item :: "env \<Rightarrow> json \<Rightarrow> world \<Rightarrow> (exn + nat option) \<times> world" where
  "member_item e member_data w =
     (case py_get member_data ''bioguideId'' of
        Inl ex \<Rightarrow> (Inl ex, w)
      | Inr bioguide_id \<Rightarrow>
          if truthy bioguide_id
          then (case call_client e (member_endpoint bioguide_id) w of
                  (resp, w') \<Rightarrow>
                    (case detail_or resp ''member'' member_data of
                       Inl ex \<Rightarrow> (Inl ex, w')
                     | Inr member_data' \<Rightarrow> store_with (insert_member e member_data') w'))
          else store_with (insert_member e member_data) w)"

definition amendment_item :: "env \<Rightarrow> json \<Rightarrow> world \<Rightarrow> (exn + nat option) \<times> world" where
  "amendment_item e amendment_data w = store_with (insert_amendment e amendment_data) w"

definition committee_item :: "env \<Rightarrow> json \<Rightarrow> world \<Rightarrow> (exn + nat option) \<times> world" where
  "committee_item e committee_data w = store_with (insert_committee e committee_data) w"

text \<open>
  The end of the four methods. Inside the outer \<open>try\<close>, after the fetch and the
  loop, \<open>update_sync_log(status='completed', ...)\<close> runs; the outer handler runs
  \<open>update_sync_log(status='failed', error_message=str(e))\<close>, outside any \<open>try\<close>.
  Then \<open>return self.stats\<close>.
\<close>

definition finish_run :: "env \<Rightarrow> nat option \<Rightarrow> world \<Rightarrow> (exn + stats) \<times> world" where
  "finish_run e log_id w =
     (let st = self_stats w in
      case update_sync_log e log_id ''completed'' (processed st) (created st) (updated st)
             (failed st) None (store w) of
        (Inr u, d') \<Rightarrow> (Inr st, w\<lparr>store := d'\<rparr>)
      | (Inl ex, d') \<Rightarrow>
          (case update_sync_log e log_id ''failed'' 0 0 0 0 (Some ex) d' of
             (Inr u, d'') \<Rightarrow> (Inr st, w\<lparr>store := d''\<rparr>)
           | (Inl ex', d'') \<Rightarrow> (Inl ex', w\<lparr>store := d''\<rparr>)))"

text \<open>
  The start of the four methods: \<open>self.stats\<close> is set to zero and \<open>log_sync\<close>
  opens the run, before the outer \<open>try\<close>.
\<close>

definition start_run :: "env \<Rightarrow> string \<Rightarrow> json \<Rightarrow> world \<Rightarrow> (exn + nat option) \<times> world" where
  "start_run e endpoint parameters w =
     (case log_sync e endpoint ''bulk'' parameters (store w) of
        (r, d') \<Rightarrow> (r, w\<lparr>store := d', self_stats := zero_stats\<rparr>))"

text \<open>Fetch, then the loop over the items, as the outer \<open>try\<close> does.\<close>

definition fetch_and_process ::
  "env \<Rightarrow> (json \<Rightarrow> world \<Rightarrow> (exn + nat option) \<times> world) \<Rightarrow> string \<Rightarrow> int option \<Rightarrow> world
     \<Rightarrow> world option" where
  "fetch_and_process e body endpoint max_pages w =
     (case fetch_paginated e endpoint 250 max_pages (requests w) of
        None \<Rightarrow> None
      | Some (items, reqs) \<Rightarrow> Some (process_items body items (w\<lparr>requests := reqs\<rparr>)))"

definition opt_int :: "int option \<Rightarrow> json" where
  "opt_int x = (case x of None \<Rightarrow> JNull | Some n \<Rightarrow> JNum n)"

definition opt_str :: "string option \<Rightarrow> json" where
  "opt_str x = (case x of None \<Rightarrow> JNull | Some s \<Rightarrow> JStr s)"

text \<open>The endpoint of \<open>ingest_bills\<close>, with the date filters.\<close>

definition bill_endpoint ::
  "int option \<Rightarrow> string option \<Rightarrow> string option \<Rightarrow> string option \<Rightarrow> string" where
  "bill_endpoint congress bill_type from_date to_date =
     (let endpoint =
        (if truthy (opt_int congress) \<and> truthy (opt_str bill_type)
         then ''bill/'' @ str_int (the congress) @ ''/'' @ the bill_type
         else if truthy (opt_int congress) then ''bill/'' @ str_int (the congress)
         else ''bill'')
      in if truthy (opt_str from_date) \<or> truthy (opt_str to_date)
         then endpoint @ ''?'' @
              (if truthy (opt_str from_date) \<and> truthy (opt_str to_date)
               then ''fromDateTime='' @ the from_date @ ''&'' @ ''toDateTime='' @ the to_date
               else if truthy (opt_str from_date) then ''fromDateTime='' @ the from_date
               else ''toDateTime='' @ the to_date)
         else endpoint)"

definition ingest_bills ::
  "env \<Rightarrow> int option \<Rightarrow> string option \<Rightarrow> string option \<Rightarrow> string option \<Rightarrow> int option
     \<Rightarrow> world \<Rightarrow> ((exn + stats) \<times> world) option" where
  "ingest_bills e congress bill_type from_date to_date max_pages w =
     (case start_run e ''bills''
             (JObj [(''congress'', opt_int congress), (''bill_type'', opt_str bill_type)]) w of
        (Inl ex, w0) \<Rightarrow> Some (Inl ex, w0)
      | (Inr log_id, w0) \<Rightarrow>
          (case fetch_and_process e (bill_item e)
                  (bill_endpoint congress bill_type from_date to_date) max_pages w0 of
             None \<Rightarrow> None
           | Some w1 \<Rightarrow> Some (finish_run e log_id w1)))"

definition ingest_members ::
  "env \<Rightarrow> int option \<Rightarrow> int option \<Rightarrow> world \<Rightarrow> ((exn + stats) \<times> world) option" where
  "ingest_members e congress max_pages w =
     (case start_run e ''members'' (JObj [(''congress'', opt_int congress)]) w of
        (Inl ex, w0) \<Rightarrow> Some (Inl ex, w0)
      | (Inr log_id, w0) \<Rightarrow>
          (case fetch_and_process e (member_item e)
                  (if truthy (opt_int congress)
                   then ''member/congress/'' @ str_int (the congress) else ''member'')
                  max_pages w0 of
             None \<Rightarrow> None
           | Some w1 \<Rightarrow> Some (finish_run e log_id w1)))"

definition ingest_amendments ::
  "env \<Rightarrow> int option \<Rightarrow> int option \<Rightarrow> world \<Rightarrow> ((exn + stats) \<times> world) option" where
  "ingest_amendments e congress max_pages w =
     (case start_run e ''amendments'' (JObj [(''congress'', opt_int congress)]) w of
        (Inl ex, w0) \<Rightarrow> Some (Inl ex, w0)
      | (Inr log_id, w0) \<Rightarrow>
          (case fetch_and_process e (amendment_item e)
                  (if truthy (opt_int congress)
                   then ''amendment/'' @ str_int (the congress) else ''amendment'')
                  max_pages w0 of
             None \<Rightarrow> None
           | Some w1 \<Rightarrow> Some (finish_run e log_id w1)))"

text \<open>\<open>ingest_committees\<close>: the two chambers in turn, one run and one \<open>self.stats\<close>.\<close>

definition ingest_committees ::
  "env \<Rightarrow> int option \<Rightarrow> world \<Rightarrow> ((exn + stats) \<times> world) option" where
  "ingest_committees e max_pages w =
     (case start_run e ''committees'' JNull w of
        (Inl ex, w0) \<Rightarrow> Some (Inl ex, w0)
      | (Inr log_id, w0) \<Rightarrow>
          (case fetch_and_process e (committee_item e) ''committee/house'' max_pages w0 of
             None \<Rightarrow> None
           | Some w1 \<Rightarrow>
               (case fetch_and_process e (committee_item e) ''committee/senate'' max_pages w1 of
                  None \<Rightarrow> None
                | Some w2 \<Rightarrow> Some (finish_run e log_id w2))))"

subsection \<open>A page cap of any type\<close>

text \<open>
  The methods are annotated \<open>max_pages: Optional[int]\<close> and the definitions above
  take the argument at that type; Python does not enforce the annotation. The
  loop condition \<open>next_url and (max_pages is None or page < max_pages)\<close> is
  evaluated outside the \<open>try\<close> of the loop body. With \<open>None\<close> or a number (a
  \<open>bool\<close> counts as 0 or 1) it is the test of the typed loop; with a string, a
  list or a dict the comparison \<open>page < max_pages\<close> raises \<open>TypeError\<close>.
\<close>

fun loop_test :: "json \<Rightarrow> json \<Rightarrow> int \<Rightarrow> exn + bool" where
  "loop_test next_url JNull page = Inr (truthy next_url)"
| "loop_test next_url (JNum m) page = Inr (truthy next_url \<and> page < m)"
| "loop_test next_url (JBool b) page = Inr (truthy next_url \<and> page < (if b then 1 else 0))"
| "loop_test next_url _ page = (if truthy next_url then Inl TypeError else Inr False)"

fun typed_cap :: "json \<Rightarrow> int option" where
  "typed_cap (JNum m) = Some m"
| "typed_cap (JBool b) = Some (if b then 1 else 0)"
| "typed_cap _ = None"

text \<open>
  \<open>_fetch_paginated\<close> with a \<open>max_pages\<close> of any type: the first evaluation of
  the loop condition, at \<open>page = 0\<close> and the first URL, raises or not; when it
  does not, \<open>max_pages\<close> is \<open>None\<close> or a number and the call is the typed one.
  An exception of the condition is not inside any \<open>try\<close> of the method: it
  leaves the call.
\<close>

definition fetch_paginated_any ::
  "env \<Rightarrow> string \<Rightarrow> int \<Rightarrow> json \<Rightarrow> json list \<Rightarrow> (exn + json list \<times> json list) option" where
  "fetch_paginated_any e endpoint limit max_pages reqs =
     (case loop_test (first_url endpoint limit) max_pages 0 of
        Inl ex \<Rightarrow> Some (Inl ex)
      | Inr go \<Rightarrow> map_option Inr (fetch_paginated e endpoint limit (typed_cap max_pages) reqs))"

text \<open>
  The outer handler of \<open>ingest_bills\<close>:
  \<^verbatim>\<open>except Exception as e: self.db.update_sync_log(log_id, status='failed', error_message=str(e))\<close>
  and then \<open>return self.stats\<close>. The update is outside any \<open>try\<close>.
\<close>

definition abort_run :: "env \<Rightarrow> nat option \<Rightarrow> exn \<Rightarrow> world \<Rightarrow> (exn + stats) \<times> world" where
  "abort_run e log_id ex w =
     (case update_sync_log e log_id ''failed'' 0 0 0 0 (Some ex) (store w) of
        (Inr u, d') \<Rightarrow> (Inr (self_stats w), w\<lparr>store := d'\<rparr>)
      | (Inl ex', d') \<Rightarrow> (Inl ex', w\<lparr>store := d'\<rparr>))"

text \<open>
  \<open>ingest_bills\<close> with a \<open>max_pages\<close> of any type: the outer \<open>try\<close> around the
  fetch, the loop over the items and the final update; an exception of the
  fetch goes to the outer handler.
\<close>

definition ingest_bills_any ::
  "env \<Rightarrow> int option \<Rightarrow> string option \<Rightarrow> string option \<Rightarrow> string option \<Rightarrow> json
     \<Rightarrow> world \<Rightarrow> ((exn + stats) \<times> world) option" where
  "ingest_bills_any e congress bill_type from_date to_date max_pages w =
     (case start_run e ''bills''
             (JObj [(''congress'', opt_int congress), (''bill_type'', opt_str bill_type)]) w of
        (Inl ex, w0) \<Rightarrow> Some (Inl ex, w0)
      | (Inr log_id, w0) \<Rightarrow>
          (case fetch_paginated_any e (bill_endpoint congress bill_type from_date to_date) 250
                  max_pages (requests w0) of
             None \<Rightarrow> None
           | Some (Inl ex) \<Rightarrow> Some (abort_run e log_id ex w0)
           | Some (Inr (items, reqs)) \<Rightarrow>
               Some (finish_run e log_id
                       (process_items (bill_item e) items (w0\<lparr>requests := reqs\<rparr>)))))"

section \<open>Notions used to state the properties\<close>

text \<open>The items one page contributes to \<open>all_items\<close>.\<close>

definition page_items :: "json \<Rightarrow> json list" where
  "page_items p = fst (fetch_body p)"

text \<open>
  \<open>follow e reqs url pages\<close> says that the API serves \<open>pages\<close> in this order
  from \<open>url\<close> on: each request is answered with status 200 and the next body of
  the list, and each body carries the cursor of the next request. The result is
  the request log after the pages and the cursor of the last one (the start
  \<open>url\<close> when there is no page).
\<close>

fun follow :: "env \<Rightarrow> json list \<Rightarrow> json \<Rightarrow> json list \<Rightarrow> (json list \<times> json) option" where
  "follow e reqs url [] = Some (reqs, url)"
| "follow e reqs url (p # ps) =
     (if truthy url \<and> client_get e reqs url = Reply p 200
      then (case snd (fetch_body p) of
              Inl ex \<Rightarrow> None
            | Inr nxt \<Rightarrow> follow e (reqs @ [url]) nxt ps)
      else None)"

text \<open>
  An answer that ends the pagination: the client raises, or the status is not
  200 (nothing is appended), or the body of a 200 answer makes the loop body
  raise (its items, if it got that far, are appended).
\<close>

definition page_failure :: "response \<Rightarrow> json list option" where
  "page_failure resp =
     (case resp of
        Raise ex \<Rightarrow> Some []
      | Reply data sc \<Rightarrow>
          if sc \<noteq> 200 then Some []
          else (case snd (fetch_body data) of
                  Inl ex \<Rightarrow> Some (fst (fetch_body data))
                | Inr nxt \<Rightarrow> None))"

text \<open>The natural key of the proposed row is complete: no conflict column is NULL.\<close>

definition key_present :: "string list \<Rightarrow> params \<Rightarrow> bool" where
  "key_present kc ps =
     list_all (\<lambda>c. map_of ps c \<noteq> None \<and> map_of ps c \<noteq> Some (Plain JNull)) kc"

text \<open>The stored rows that carry the natural key of the parameters.\<close>

definition stored :: "sql \<Rightarrow> params \<Rightarrow> db \<Rightarrow> row list" where
  "stored q ps d = filter (key_match (conflict_target q) ps) (tables d (table_of q))"

text \<open>
  From \<open>d\<close> to \<open>d'\<close> every row of the table of \<open>q\<close> keeps its place, its \<open>id\<close>,
  its natural-key columns and every column outside the \<open>SET\<close> list (the
  creation metadata among them); only \<open>updated_at\<close> and the \<open>SET\<close> columns may
  differ.
\<close>

definition keeps_keys :: "sql \<Rightarrow> db \<Rightarrow> db \<Rightarrow> bool" where
  "keeps_keys q d d' =
     (let old = tables d (table_of q); new = tables d' (table_of q) in
      length old \<le> length new \<and>
      (\<forall>j < length old.
         row_id (new ! j) = row_id (old ! j) \<and>
         (\<forall>c. c \<in> set (conflict_target q) \<or> (c \<notin> set (update_set q) \<and> c \<noteq> ''updated_at'')
              \<longrightarrow> cols (new ! j) c = cols (old ! j) c)))"

text \<open>The counters agree with each other and with the number \<open>n\<close> of items.\<close>

definition consistent :: "stats \<Rightarrow> nat \<Rightarrow> bool" where
  "consistent st n =
     (processed st = created st + updated st \<and> length (errors st) = failed st
      \<and> processed st + failed st = n)"

definition keeps_stats :: "(json \<Rightarrow> world \<Rightarrow> (exn + nat option) \<times> world) \<Rightarrow> bool" where
  "keeps_stats f = (\<forall>x w. self_stats (snd (f x w)) = self_stats w)"

definition keeps_requests :: "(json \<Rightarrow> world \<Rightarrow> (exn + nat option) \<times> world) \<Rightarrow> bool" where
  "keeps_requests f = (\<forall>x w. requests (snd (f x w)) = requests w)"

text \<open>Status and error message of the rows of the sync log with identifier \<open>i\<close>.\<close>

definition run_outcome :: "nat \<Rightarrow> db \<Rightarrow> (param option \<times> param option) list" where
  "run_outcome i d =
     map (\<lambda>r. (cols r ''status'', cols r ''error_message''))
       (filter (\<lambda>r. row_id r = i) (tables d ''api_sync_log''))"

text \<open>What a finished call returned, and the sync log it left.\<close>

definition returned :: "((exn + stats) \<times> world) option \<Rightarrow> (exn + stats) option" where
  "returned res = map_option fst res"

definition logged :: "nat \<Rightarrow> ((exn + stats) \<times> world) option \<Rightarrow> (param option \<times> param option) list" where
  "logged i res = (case res of None \<Rightarrow> [] | Some (r, w) \<Rightarrow> run_outcome i (store w))"

definition stored_count :: "string \<Rightarrow> ((exn + stats) \<times> world) option \<Rightarrow> nat" where
  "stored_count t res = (case res of None \<Rightarrow> 0 | Some (r, w) \<Rightarrow> length (tables (store w) t))"




section \<open>Example payloads and environments\<close>

text \<open>A database that executes every statement.\<close>

definition accept_all :: "db \<Rightarrow> sql \<Rightarrow> params \<Rightarrow> bool" where
  "accept_all d q ps = True"

text \<open>
  Modelled from the spec: the schema of the tables is not part of the sources;
  the specification makes a missing natural-key field a failure of the record.
  This database refuses a row whose natural key is incomplete.
\<close>

definition required_keys :: "db \<Rightarrow> sql \<Rightarrow> params \<Rightarrow> bool" where
  "required_keys d q ps = key_present (conflict_target q) ps"

text \<open>A database that cannot execute the final update of a completed run.\<close>

definition reject_completed :: "db \<Rightarrow> sql \<Rightarrow> params \<Rightarrow> bool" where
  "reject_completed d q ps =
     (\<not> (q = UpdateSyncLog \<and> map_of ps ''status'' = Some (Plain (JStr ''completed''))))"

definition empty_db :: db where
  "empty_db = \<lparr>tables = (\<lambda>t. []), serial = (\<lambda>t. 0), clock = 0\<rparr>"

definition new_world :: world where
  "new_world = \<lparr>store = empty_db, requests = [], self_stats = zero_stats\<rparr>"

definition bill_a :: dict where
  "bill_a = [(''congress'', JNum 118), (''type'', JStr ''HR''), (''number'', JStr ''1''),
             (''title'', JStr ''First act''), (''sponsors'', JArr [JStr ''A000001''])]"

definition bill_a2 :: dict where
  "bill_a2 = [(''congress'', JNum 118), (''type'', JStr ''HR''), (''number'', JStr ''1''),
              (''title'', JStr ''First act, amended''), (''sponsors'', JArr [JStr ''B000002''])]"

definition bill_b :: dict where
  "bill_b = [(''congress'', JNum 118), (''type'', JStr ''HR''), (''number'', JStr ''2''),
             (''title'', JStr ''Second act'')]"

definition bill_c :: dict where
  "bill_c = [(''congress'', JNum 118), (''type'', JStr ''HR''), (''number'', JStr ''3''),
             (''url'', JStr ''https://api.congress.gov/v3/bill/118/hr/3?format=json'')]"

definition bill_c_detail :: dict where
  "bill_c_detail = [(''number'', JStr ''3''), (''title'', JStr ''Third act'')]"

definition bill_d :: dict where
  "bill_d = [(''congress'', JNum 118), (''type'', JStr ''HR''), (''number'', JStr ''4''),
             (''title'', JStr ''Fourth act'')]"


definition bill_no_type :: dict where
  "bill_no_type = [(''congress'', JNum 118), (''number'', JStr ''5''),
                   (''title'', JStr ''Act without a type'')]"

definition bill_odd_laws :: dict where
  "bill_odd_laws = [(''congress'', JNum 118), (''type'', JStr ''HR''), (''number'', JStr ''6''),
                    (''title'', JStr ''Sixth act''), (''laws'', JArr [JStr ''118-1''])]"

definition amendment_a :: dict where
  "amendment_a = [(''congress'', JNum 118), (''type'', JStr ''SAMDT''), (''number'', JStr ''7''),
                  (''purpose'', JStr ''To strike a section'')]"

definition amendment_a2 :: dict where
  "amendment_a2 = [(''congress'', JNum 118), (''type'', JStr ''SAMDT''), (''number'', JStr ''7''),
                   (''purpose'', JStr ''To strike two sections''), (''chamber'', JStr ''Senate'')]"

definition amendment_no_type :: dict where
  "amendment_no_type = [(''congress'', JNum 118), (''number'', JStr ''9'')]"

definition amendment_null_bill :: dict where
  "amendment_null_bill = [(''congress'', JNum 118), (''type'', JStr ''SAMDT''),
                          (''number'', JStr ''8''), (''amendedBill'', JNull)]"

definition member_a :: dict where
  "member_a = [(''bioguideId'', JStr ''A000001''), (''name'', JStr ''Doe, Jane'')]"

definition member_a_detail :: dict where
  "member_a_detail = [(''bioguideId'', JStr ''A000001''), (''firstName'', JStr ''Jane''),
                      (''lastName'', JStr ''Doe'')]"

definition member_no_id :: dict where
  "member_no_id = [(''name'', JStr ''Doe, Jane'')]"

definition committee_no_code :: dict where
  "committee_no_code = [(''name'', JStr ''Agriculture'')]"

definition committee_a :: dict where
  "committee_a = [(''systemCode'', JStr ''hsag00''), (''name'', JStr ''Agriculture'')]"

definition page_1 :: json where
  "page_1 = JObj [(''bills'', JArr [JObj bill_a, JObj bill_b]),
                  (''pagination'', JObj [(''count'', JNum 4),
                                         (''next'', JStr ''bill/118/hr?offset=250&limit=250'')])]"

definition page_2 :: json where
  "page_2 = JObj [(''bills'', JArr [JObj bill_c, JObj bill_d]),
                  (''pagination'', JObj [(''count'', JNum 4), (''next'', JNull)])]"

definition page_mixed :: json where
  "page_mixed = JObj [(''bills'', JArr [JObj bill_a, JObj bill_no_type, JObj bill_b]),
                      (''pagination'', JObj [(''count'', JNum 3)])]"

definition not_found :: response where
  "not_found = Reply (JObj [(''error'', JStr ''not found'')]) 404"

text \<open>An API that serves the example pages and answers 404 to any other request.\<close>

definition demo_client :: "json list \<Rightarrow> json \<Rightarrow> response" where
  "demo_client reqs url =
     (if url = JStr ''bill/118/hr?limit=250&offset=0'' then Reply page_1 200
      else if url = JStr ''bill/118/hr?offset=250&limit=250'' then Reply page_2 200
      else if url = JStr ''bill/118/hr/3?format=json''
           then Reply (JObj [(''bill'', JObj bill_c_detail)]) 200
      else if url = JStr ''bill/118?limit=250&offset=0'' then Reply page_mixed 200
      else if url = JStr ''member?limit=250&offset=0''
           then Reply (JObj [(''members'', JArr [JObj member_a])]) 200
      else if url = JStr ''member/A000001''
           then Reply (JObj [(''member'', JObj member_a_detail)]) 200
      else if url = JStr ''amendment?limit=250&offset=0''
           then Reply (JObj [(''amendments'', JArr [JObj amendment_a, JObj amendment_null_bill])]) 200
      else if url = JStr ''committee/house?limit=250&offset=0''
           then Reply (JObj [(''committees'', JArr [JObj committee_a])]) 200
      else not_found)"

text \<open>An API whose second page is a server error, and one that cannot be reached.\<close>

definition flaky_client :: "json list \<Rightarrow> json \<Rightarrow> response" where
  "flaky_client reqs url =
     (if url = JStr ''bill/118/hr?limit=250&offset=0'' then Reply page_1 200
      else Reply (JObj [(''error'', JStr ''internal error'')]) 500)"

definition offline :: "json list \<Rightarrow> json \<Rightarrow> response" where
  "offline reqs url = Raise (ClientError ''connection refused'')"

definition demo_env :: env where
  "demo_env = \<lparr>client_get = demo_client, db_accepts = accept_all\<rparr>"

definition strict_env :: env where
  "strict_env = \<lparr>client_get = demo_client, db_accepts = required_keys\<rparr>"

definition flaky_env :: env where
  "flaky_env = \<lparr>client_get = flaky_client, db_accepts = accept_all\<rparr>"

definition offline_env :: env where
  "offline_env = \<lparr>client_get = offline, db_accepts = accept_all\<rparr>"

definition broken_log_env :: env where
  "broken_log_env = \<lparr>client_get = offline, db_accepts = reject_completed\<rparr>"

definition offline_strict_env :: env where
  "offline_strict_env = \<lparr>client_get = offline, db_accepts = required_keys\<rparr>"

definition db_a1 :: db where
  "db_a1 = snd (insert_bill demo_env (JObj bill_a) empty_db)"

definition db_a2 :: db where
  "db_a2 = snd (insert_bill demo_env (JObj bill_a2) db_a1)"

definition db_m1 :: db where
  "db_m1 = snd (insert_amendment demo_env (JObj amendment_a) empty_db)"




section \<open>Equations for evaluation\<close>

text \<open>
  The same functions written with projections instead of pattern matching on
  pairs, so that a concrete run is evaluated from the inside out.
\<close>

lemma fetch_loop_code [code]:
  "fetch_loop e max_pages reqs next_url page all_items =
     (if truthy next_url \<and> (case max_pages of None \<Rightarrow> True | Some m \<Rightarrow> page < m)
      then (if is_Raise (client_get e reqs next_url)
            then Some (all_items, reqs @ [next_url])
            else if reply_status (client_get e reqs next_url) \<noteq> 200
            then Some (all_items, reqs @ [next_url])
            else if isl (snd (fetch_body (reply_body (client_get e reqs next_url))))
            then Some (all_items @ fst (fetch_body (reply_body (client_get e reqs next_url))),
                       reqs @ [next_url])
            else fetch_loop e max_pages (reqs @ [next_url])
                   (projr (snd (fetch_body (reply_body (client_get e reqs next_url))))) (page + 1)
                   (all_items @ fst (fetch_body (reply_body (client_get e reqs next_url)))))
      else Some (all_items, reqs))"
  by (subst fetch_loop.simps)
     (auto split: response.splits prod.splits sum.splits)

lemma process_items_code [code]:
  "process_items f [] w = w"
  "process_items f (x # xs) w =
     process_items f xs
       ((snd (f x w))\<lparr>self_stats := count_item (fst (f x w)) (self_stats (snd (f x w)))\<rparr>)"
  by (simp_all split: prod.splits)

lemma single_run_code:
  "(case start_run e name p w of
      (Inl ex, w0) \<Rightarrow> Some (Inl ex, w0)
    | (Inr log_id, w0) \<Rightarrow>
        (case fetch_and_process e f ep mp w0 of
           None \<Rightarrow> None
         | Some w1 \<Rightarrow> Some (finish_run e log_id w1))) =
   (case fst (start_run e name p w) of
      Inl ex \<Rightarrow> Some (Inl ex, snd (start_run e name p w))
    | Inr log_id \<Rightarrow>
        (case fetch_and_process e f ep mp (snd (start_run e name p w)) of
           None \<Rightarrow> None
         | Some w1 \<Rightarrow> Some (finish_run e log_id w1)))"
  by (cases "start_run e name p w") (auto split: sum.splits)

lemmas ingest_code [code] =
  ingest_bills_def [unfolded single_run_code]
  ingest_members_def [unfolded single_run_code]
  ingest_amendments_def [unfolded single_run_code]

lemma ingest_committees_code [code]:
  "ingest_committees e max_pages w =
     (case fst (start_run e ''committees'' JNull w) of
        Inl ex \<Rightarrow> Some (Inl ex, snd (start_run e ''committees'' JNull w))
      | Inr log_id \<Rightarrow>
          (case fetch_and_process e (committee_item e) ''committee/house'' max_pages
                  (snd (start_run e ''committees'' JNull w)) of
             None \<Rightarrow> None
           | Some w1 \<Rightarrow>
               (case fetch_and_process e (committee_item e) ''committee/senate'' max_pages w1 of
                  None \<Rightarrow> None
                | Some w2 \<Rightarrow> Some (finish_run e log_id w2))))"
  by (cases "start_run e ''committees'' JNull w")
     (auto simp: ingest_committees_def split: sum.splits)

section \<open>Pagination\<close>

lemma follow_length:
  "follow e reqs url ps = Some (reqs', url') \<Longrightarrow> length reqs' = length reqs + length ps"
  by (induction ps arbitrary: reqs url) (auto split: if_splits sum.splits)

lemma fetch_loop_follow:
  "follow e reqs url ps = Some (reqs', url') \<Longrightarrow>
   (case mp of None \<Rightarrow> True | Some m \<Rightarrow> page + int (length ps) \<le> m) \<Longrightarrow>
   fetch_loop e mp reqs url page acc =
   fetch_loop e mp reqs' url' (page + int (length ps)) (acc @ concat (map page_items ps))"
proof (induction ps arbitrary: reqs url page acc)
  case Nil
  then show ?case by simp
next
  case (Cons p ps)
  from Cons.prems(1) obtain nxt where
    t: "truthy url" and r: "client_get e reqs url = Reply p 200"
    and b: "snd (fetch_body p) = Inr nxt"
    and f: "follow e (reqs @ [url]) nxt ps = Some (reqs', url')"
    by (auto split: if_splits sum.splits)
  from Cons.prems(2) have c: "(case mp of None \<Rightarrow> True | Some m \<Rightarrow> page < m)"
    and c': "(case mp of None \<Rightarrow> True | Some m \<Rightarrow> (page + 1) + int (length ps) \<le> m)"
    by (auto split: option.splits)
  have fb: "fetch_body p = (page_items p, Inr nxt)"
    using b by (simp add: page_items_def prod_eq_iff)
  have "fetch_loop e mp reqs url page acc =
        fetch_loop e mp (reqs @ [url]) nxt (page + 1) (acc @ page_items p)"
    by (subst fetch_loop.simps) (simp add: t r c fb)
  also have "\<dots> = fetch_loop e mp reqs' url' ((page + 1) + int (length ps))
                    ((acc @ page_items p) @ concat (map page_items ps))"
    by (rule Cons.IH [OF f c'])
  finally show ?case by (simp add: add.assoc)
qed

lemma fetch_loop_stop:
  "\<not> (truthy url \<and> (case mp of None \<Rightarrow> True | Some m \<Rightarrow> page < m)) \<Longrightarrow>
   fetch_loop e mp reqs url page acc = Some (acc, reqs)"
  by (subst fetch_loop.simps) (rule if_not_P)

lemma fetch_loop_failure:
  assumes "truthy url" and "case mp of None \<Rightarrow> True | Some m \<Rightarrow> page < m"
    and "page_failure (client_get e reqs url) = Some extra"
  shows "fetch_loop e mp reqs url page acc = Some (acc @ extra, reqs @ [url])"
proof (cases "client_get e reqs url")
  case (Raise ex)
  with assms show ?thesis
    by (subst fetch_loop.simps) (simp add: page_failure_def)
next
  case (Reply data sc)
  show ?thesis
  proof (cases "sc = 200")
    case False
    with assms Reply show ?thesis
      by (subst fetch_loop.simps) (simp add: page_failure_def)
  next
    case True
    with assms(3) Reply obtain ex where b: "snd (fetch_body data) = Inl ex"
      and x: "extra = fst (fetch_body data)"
      by (auto simp: page_failure_def split: sum.splits)
    from assms(1,2) Reply True b x show ?thesis
      by (subst fetch_loop.simps) (cases "fetch_body data", simp)
  qed
qed

text \<open>
  Claim C4. When the API serves a sequence of pages, each answered with status
  200 and each carrying the cursor of the next request, \<open>_fetch_paginated\<close>
  without a page cap returns the items of all pages, concatenated in the order
  served, as soon as the last page has no cursor (\<open>null\<close>, or any false value);
  and with \<open>max_pages = k\<close> it returns the items of the first \<open>k\<close> pages after
  exactly \<open>k\<close> requests, whatever cursor the \<open>k\<close>-th page carries.
\<close>

theorem fetch_paginated_concat:
  assumes "follow e reqs (first_url endpoint limit) pages = Some (reqs', nxt)"
  shows "(\<not> truthy nxt \<longrightarrow>
            fetch_paginated e endpoint limit None reqs
              = Some (concat (map page_items pages), reqs'))
         \<and> fetch_paginated e endpoint limit (Some (int (length pages))) reqs
              = Some (concat (map page_items pages), reqs')
         \<and> length reqs' = length reqs + length pages"
proof -
  have a: "fetch_loop e None reqs (first_url endpoint limit) 0 []
           = fetch_loop e None reqs' nxt (0 + int (length pages))
               ([] @ concat (map page_items pages))"
    by (rule fetch_loop_follow [OF assms]) simp
  have b: "fetch_loop e (Some (int (length pages))) reqs (first_url endpoint limit) 0 []
           = fetch_loop e (Some (int (length pages))) reqs' nxt (0 + int (length pages))
               ([] @ concat (map page_items pages))"
    by (rule fetch_loop_follow [OF assms]) simp
  show ?thesis
    using a b follow_length [OF assms]
    by (simp add: fetch_paginated_def fetch_loop_stop)
qed

theorem fetch_paginated_concat_witness:
  "fetch_paginated demo_env ''bill/118/hr'' 250 None []
     = Some ([JObj bill_a, JObj bill_b, JObj bill_c, JObj bill_d],
             [JStr ''bill/118/hr?limit=250&offset=0'', JStr ''bill/118/hr?offset=250&limit=250''])
   \<and> fetch_paginated demo_env ''bill/118/hr'' 250 (Some 1) []
     = Some ([JObj bill_a, JObj bill_b], [JStr ''bill/118/hr?limit=250&offset=0''])"
proof -
  have h2: "follow demo_env [] (first_url ''bill/118/hr'' 250) [page_1, page_2]
            = Some ([JStr ''bill/118/hr?limit=250&offset=0'',
                     JStr ''bill/118/hr?offset=250&limit=250''], JNull)"
    by code_simp
  have h1: "follow demo_env [] (first_url ''bill/118/hr'' 250) [page_1]
            = Some ([JStr ''bill/118/hr?limit=250&offset=0''],
                    JStr ''bill/118/hr?offset=250&limit=250'')"
    by code_simp
  have p2: "concat (map page_items [page_1, page_2])
            = [JObj bill_a, JObj bill_b, JObj bill_c, JObj bill_d]"
    by code_simp
  have p1: "concat (map page_items [page_1]) = [JObj bill_a, JObj bill_b]"
    by code_simp
  show ?thesis
    using fetch_paginated_concat [OF h2] fetch_paginated_concat [OF h1]
    unfolding p1 p2 by simp
qed

text \<open>
  Claim C5. When, after any number of pages served, the next page fetch is
  answered with a status other than 200, or the client raises (or the body of
  the answer makes the loop body raise), \<open>_fetch_paginated\<close> returns: its
  result is the items accumulated from the earlier pages (with the items the
  failing body had already contributed, none when the status is not 200 or the
  client raised), and no exception reaches the caller.
\<close>

theorem fetch_paginated_tolerant:
  assumes "follow e reqs (first_url endpoint limit) pages = Some (reqs', nxt)"
    and "truthy nxt"
    and "case max_pages of None \<Rightarrow> True | Some m \<Rightarrow> int (length pages) < m"
    and "page_failure (client_get e reqs' nxt) = Some extra"
  shows "fetch_paginated e endpoint limit max_pages reqs
           = Some (concat (map page_items pages) @ extra, reqs' @ [nxt])"
proof -
  have c: "case max_pages of None \<Rightarrow> True | Some m \<Rightarrow> 0 + int (length pages) \<le> m"
    and c': "case max_pages of None \<Rightarrow> True | Some m \<Rightarrow> 0 + int (length pages) < m"
    using assms(3) by (auto split: option.splits)
  have "fetch_paginated e endpoint limit max_pages reqs
           = fetch_loop e max_pages reqs' nxt (0 + int (length pages))
               ([] @ concat (map page_items pages))"
    unfolding fetch_paginated_def by (rule fetch_loop_follow [OF assms(1) c])
  also have "\<dots> = Some (([] @ concat (map page_items pages)) @ extra, reqs' @ [nxt])"
    by (rule fetch_loop_failure [OF assms(2) c' assms(4)])
  finally show ?thesis by simp
qed

theorem fetch_paginated_tolerant_witness:
  "fetch_paginated flaky_env ''bill/118/hr'' 250 None []
     = Some ([JObj bill_a, JObj bill_b],
             [JStr ''bill/118/hr?limit=250&offset=0'', JStr ''bill/118/hr?offset=250&limit=250''])
   \<and> fetch_paginated offline_env ''bill'' 250 (Some 3) []
     = Some ([], [JStr ''bill?limit=250&offset=0''])"
proof -
  have h1: "follow flaky_env [] (first_url ''bill/118/hr'' 250) [page_1]
            = Some ([JStr ''bill/118/hr?limit=250&offset=0''],
                    JStr ''bill/118/hr?offset=250&limit=250'')"
    by code_simp
  have t1: "truthy (JStr ''bill/118/hr?offset=250&limit=250'')" by simp
  have c1: "case None :: int option of None \<Rightarrow> True | Some m \<Rightarrow> int (length [page_1]) < m"
    by simp
  have f1: "page_failure (client_get flaky_env [JStr ''bill/118/hr?limit=250&offset=0'']
              (JStr ''bill/118/hr?offset=250&limit=250'')) = Some []"
    by code_simp
  have p1: "concat (map page_items [page_1]) = [JObj bill_a, JObj bill_b]"
    by code_simp
  have u: "first_url ''bill'' 250 = JStr ''bill?limit=250&offset=0''"
    by code_simp
  have h0: "follow offline_env [] (first_url ''bill'' 250) []
            = Some ([], JStr ''bill?limit=250&offset=0'')"
    by (simp add: u)
  have t0: "truthy (JStr ''bill?limit=250&offset=0'')" by simp
  have c0: "case Some 3 of None \<Rightarrow> True | Some m \<Rightarrow> int (length ([] :: json list)) < m"
    by simp
  have f0: "page_failure (client_get offline_env [] (JStr ''bill?limit=250&offset=0'')) = Some []"
    by code_simp
  show ?thesis
    using fetch_paginated_tolerant [OF h1 t1 c1 f1] fetch_paginated_tolerant [OF h0 t0 c0 f0]
    unfolding p1 by simp
qed

section \<open>The upsert\<close>

lemma upsert_rows_length:
  "length rs \<le> length (fst (upsert_rows kc uc now ps i rs))"
  by (induction rs) (auto split: prod.splits)

lemma upsert_rows_frame:
  "j < length rs \<Longrightarrow>
   row_id (fst (upsert_rows kc uc now ps i rs) ! j) = row_id (rs ! j) \<and>
   (\<forall>c. c \<notin> set uc \<and> c \<noteq> ''updated_at'' \<longrightarrow>
        cols (fst (upsert_rows kc uc now ps i rs) ! j) c = cols (rs ! j) c)"
proof (induction rs arbitrary: j)
  case Nil
  then show ?case by simp
next
  case (Cons r rs)
  show ?case
  proof (cases "key_match kc ps r")
    case True
    then show ?thesis by (cases j) (auto simp: update_row_def)
  next
    case False
    then show ?thesis using Cons by (cases j) (auto split: prod.splits)
  qed
qed

lemma key_not_updated:
  "q \<in> {UpsertBill, UpsertMember, UpsertAmendment, UpsertCommittee} \<Longrightarrow>
   c \<in> set (conflict_target q) \<Longrightarrow> c \<notin> set (update_set q) \<and> c \<noteq> ''updated_at''"
  by auto

lemma run_sql_upsert:
  "q \<in> {UpsertBill, UpsertMember, UpsertAmendment, UpsertCommittee} \<Longrightarrow>
   run_sql q ps d =
     ([snd (upsert_rows (conflict_target q) (update_set q) (clock d) ps (Suc (serial d (table_of q)))
              (tables d (table_of q)))],
      d\<lparr>tables := (tables d)(table_of q :=
            fst (upsert_rows (conflict_target q) (update_set q) (clock d) ps
                   (Suc (serial d (table_of q))) (tables d (table_of q)))),
        serial := (serial d)(table_of q := Suc (serial d (table_of q)))\<rparr>)"
  by (auto simp: run_sql_def Let_def split: prod.splits)

lemma returning_id_cases:
  "returning_id e q ps d =
     (if db_accepts e d q ps
      then (Inr (case fst (run_sql q ps (d\<lparr>clock := Suc (clock d)\<rparr>)) of [] \<Rightarrow> None | i # _ \<Rightarrow> Some i),
            snd (run_sql q ps (d\<lparr>clock := Suc (clock d)\<rparr>)))
      else (Inr None, d\<lparr>clock := Suc (clock d)\<rparr>))"
  by (simp add: returning_id_def execute_sql_def Let_def split: list.splits prod.splits)

lemma keeps_keys_refl: "keeps_keys q d d"
  by (simp add: keeps_keys_def)

lemma keeps_keys_clock: "keeps_keys q d (d\<lparr>clock := n\<rparr>)"
  by (simp add: keeps_keys_def)

lemma keeps_keys_returning_id:
  assumes q: "q \<in> {UpsertBill, UpsertMember, UpsertAmendment, UpsertCommittee}"
  shows "keeps_keys q d (snd (returning_id e q ps d))"
proof (cases "db_accepts e d q ps")
  case False
  then show ?thesis by (simp add: returning_id_cases keeps_keys_clock)
next
  case True
  have k: "\<And>c. c \<in> set (conflict_target q) \<Longrightarrow> c \<notin> set (update_set q) \<and> c \<noteq> ''updated_at''"
    using key_not_updated [OF q] by blast
  show ?thesis
    using True upsert_rows_length upsert_rows_frame k
    by (auto simp: returning_id_cases run_sql_upsert [OF q] keeps_keys_def Let_def)
qed

text \<open>
  Claim C7. An upsert leaves every stored row of its table in place with its
  identifier, its natural-key columns and every column outside the \<open>SET\<close>
  list unchanged, whether the database takes the statement or not: on a
  conflict only the \<open>SET\<close> columns and \<open>updated_at\<close> are overwritten. This
  holds for \<open>insert_bill\<close> and \<open>insert_amendment\<close> (and for the other two
  insert methods).
\<close>

theorem upsert_keeps_natural_key:
  "keeps_keys UpsertBill d (snd (insert_bill e bill_data d))
   \<and> keeps_keys UpsertAmendment d (snd (insert_amendment e amendment_data d))
   \<and> keeps_keys UpsertMember d (snd (insert_member e member_data d))
   \<and> keeps_keys UpsertCommittee d (snd (insert_committee e committee_data d))"
proof -
  have 1: "keeps_keys UpsertBill d (snd (insert_bill e bill_data d))"
    by (cases bill_data) (auto simp: keeps_keys_refl keeps_keys_returning_id split: sum.splits)
  have 2: "keeps_keys UpsertAmendment d (snd (insert_amendment e amendment_data d))"
    by (cases amendment_data) (auto simp: keeps_keys_refl keeps_keys_returning_id split: sum.splits)
  have 3: "keeps_keys UpsertMember d (snd (insert_member e member_data d))"
    by (cases member_data) (auto simp: keeps_keys_refl keeps_keys_returning_id)
  have 4: "keeps_keys UpsertCommittee d (snd (insert_committee e committee_data d))"
    by (cases committee_data) (auto simp: keeps_keys_refl keeps_keys_returning_id)
  show ?thesis using 1 2 3 4 by simp
qed

theorem upsert_keeps_natural_key_witness:
  "length (tables db_a1 ''bills'') = 1
   \<and> row_id (tables db_a2 ''bills'' ! 0) = row_id (tables db_a1 ''bills'' ! 0)
   \<and> cols (tables db_a2 ''bills'' ! 0) ''congress'' = cols (tables db_a1 ''bills'' ! 0) ''congress''
   \<and> cols (tables db_a2 ''bills'' ! 0) ''bill_type'' = cols (tables db_a1 ''bills'' ! 0) ''bill_type''
   \<and> cols (tables db_a2 ''bills'' ! 0) ''bill_number''
       = cols (tables db_a1 ''bills'' ! 0) ''bill_number''
   \<and> length (tables db_m1 ''amendments'') = 1
   \<and> cols (tables (snd (insert_amendment demo_env (JObj amendment_a2) db_m1)) ''amendments'' ! 0)
         ''amendment_number''
       = cols (tables db_m1 ''amendments'' ! 0) ''amendment_number''"
proof -
  have l: "length (tables db_a1 ''bills'') = 1" by code_simp
  have m: "length (tables db_m1 ''amendments'') = 1" by code_simp
  have k: "keeps_keys UpsertBill db_a1 db_a2"
    and k': "keeps_keys UpsertAmendment db_m1
               (snd (insert_amendment demo_env (JObj amendment_a2) db_m1))"
    using upsert_keeps_natural_key [where d = db_a1 and e = demo_env
        and bill_data = "JObj bill_a2"]
      upsert_keeps_natural_key [where d = db_m1 and e = demo_env
        and amendment_data = "JObj amendment_a2"]
    by (simp_all add: db_a2_def)
  from k l have "row_id (tables db_a2 ''bills'' ! 0) = row_id (tables db_a1 ''bills'' ! 0)
     \<and> (\<forall>c. c \<in> set (conflict_target UpsertBill)
            \<longrightarrow> cols (tables db_a2 ''bills'' ! 0) c = cols (tables db_a1 ''bills'' ! 0) c)"
    by (simp add: keeps_keys_def Let_def)
  moreover from k' m have "\<forall>c. c \<in> set (conflict_target UpsertAmendment)
       \<longrightarrow> cols (tables (snd (insert_amendment demo_env (JObj amendment_a2) db_m1))
                   ''amendments'' ! 0) c
           = cols (tables db_m1 ''amendments'' ! 0) c"
    by (simp add: keeps_keys_def Let_def)
  ultimately show ?thesis using l m by simp
qed

lemma key_match_update_row:
  "set kc \<inter> (set uc \<union> {''updated_at''}) = {} \<Longrightarrow>
   key_match kc ps' (update_row uc now ps r) = key_match kc ps' r"
  unfolding key_match_def update_row_def list_all_iff
  by (rule ball_cong) auto

lemma key_match_new_row:
  "key_present kc ps \<Longrightarrow> key_match kc ps \<lparr>row_id = i, cols = map_of ps\<rparr>"
  by (simp add: key_match_def key_present_def list_all_iff)

lemma key_match_same_key:
  "\<forall>c \<in> set kc. map_of ps2 c = map_of ps1 c \<Longrightarrow> key_match kc ps2 = key_match kc ps1"
  by (rule ext) (auto simp: key_match_def list_all_iff)

lemma upsert_rows_filter:
  assumes dj: "set kc \<inter> (set uc \<union> {''updated_at''}) = {}" and kp: "key_present kc ps"
  shows "filter (key_match kc ps) (fst (upsert_rows kc uc now ps i rs)) =
           (case filter (key_match kc ps) rs of
              [] \<Rightarrow> [\<lparr>row_id = i, cols = map_of ps\<rparr>]
            | r # rest \<Rightarrow> update_row uc now ps r # rest)
         \<and> snd (upsert_rows kc uc now ps i rs) =
           (case filter (key_match kc ps) rs of [] \<Rightarrow> i | r # rest \<Rightarrow> row_id r)"
proof (induction rs)
  case Nil
  then show ?case by (simp add: key_match_new_row [OF kp])
next
  case (Cons r rs)
  show ?case
  proof (cases "key_match kc ps r")
    case True
    then show ?thesis by (simp add: key_match_update_row [OF dj])
  next
    case False
    then show ?thesis using Cons by (cases "upsert_rows kc uc now ps i rs") simp
  qed
qed

lemma stored_returning_id:
  assumes q: "q \<in> {UpsertBill, UpsertMember, UpsertAmendment, UpsertCommittee}"
    and kp: "key_present (conflict_target q) ps"
    and acc: "db_accepts e d q ps"
  shows "stored q ps (snd (returning_id e q ps d)) =
           (case stored q ps d of
              [] \<Rightarrow> [\<lparr>row_id = Suc (serial d (table_of q)), cols = map_of ps\<rparr>]
            | r # rest \<Rightarrow> update_row (update_set q) (Suc (clock d)) ps r # rest)"
    and "fst (returning_id e q ps d) =
           Inr (Some (case stored q ps d of [] \<Rightarrow> Suc (serial d (table_of q)) | r # rest \<Rightarrow> row_id r))"
proof -
  have dj: "set (conflict_target q) \<inter> (set (update_set q) \<union> {''updated_at''}) = {}"
    using key_not_updated [OF q] by blast
  note f = upsert_rows_filter [OF dj kp, of "Suc (clock d)" "Suc (serial d (table_of q))"
      "tables d (table_of q)"]
  show "stored q ps (snd (returning_id e q ps d)) =
           (case stored q ps d of
              [] \<Rightarrow> [\<lparr>row_id = Suc (serial d (table_of q)), cols = map_of ps\<rparr>]
            | r # rest \<Rightarrow> update_row (update_set q) (Suc (clock d)) ps r # rest)"
    using acc f by (simp add: returning_id_cases run_sql_upsert [OF q] stored_def)
  show "fst (returning_id e q ps d) =
           Inr (Some (case stored q ps d of [] \<Rightarrow> Suc (serial d (table_of q)) | r # rest \<Rightarrow> row_id r))"
    using acc f by (simp add: returning_id_cases run_sql_upsert [OF q] stored_def)
qed

lemma upsert_rows_returns:
  "snd (upsert_rows kc uc now ps i rs) =
     (case filter (key_match kc ps) rs of [] \<Rightarrow> i | r # rest \<Rightarrow> row_id r)"
  by (induction rs) (auto split: prod.splits)

lemma returning_id_result:
  assumes q: "q \<in> {UpsertBill, UpsertMember, UpsertAmendment, UpsertCommittee}"
  shows "fst (returning_id e q ps d) =
           (if db_accepts e d q ps
            then Inr (Some (case stored q ps d of
                              [] \<Rightarrow> Suc (serial d (table_of q)) | r # rest \<Rightarrow> row_id r))
            else Inr None)"
  by (simp add: returning_id_cases run_sql_upsert [OF q] upsert_rows_returns stored_def)

text \<open>
  Claim C1, as amended. Two calls of \<open>insert_bill\<close> with the same complete
  natural key, both executed by the database, on a table that holds at most one
  row for that key, leave exactly one row for it; both calls return its
  identifier; after the second call the columns of the \<open>DO UPDATE SET\<close> list
  hold the values of the second payload, and every other column (but
  \<open>updated_at\<close>) holds what it held after the first call, which is the value
  of the first payload when that call created the row.
\<close>

theorem insert_bill_twice:
  assumes p1: "bill_params b1 = Inr ps1" and p2: "bill_params b2 = Inr ps2"
    and kp: "key_present (conflict_target UpsertBill) ps1"
    and same: "\<forall>c \<in> set (conflict_target UpsertBill). map_of ps2 c = map_of ps1 c"
    and a1: "db_accepts e d UpsertBill ps1"
    and a2: "db_accepts e (snd (insert_bill e (JObj b1) d)) UpsertBill ps2"
    and uniq: "length (stored UpsertBill ps1 d) \<le> 1"
  shows "\<exists>r1 r2.
           stored UpsertBill ps1 (snd (insert_bill e (JObj b1) d)) = [r1]
         \<and> stored UpsertBill ps2 (snd (insert_bill e (JObj b2) (snd (insert_bill e (JObj b1) d)))) = [r2]
         \<and> fst (insert_bill e (JObj b1) d) = Inr (Some (row_id r1))
         \<and> fst (insert_bill e (JObj b2) (snd (insert_bill e (JObj b1) d))) = Inr (Some (row_id r2))
         \<and> row_id r2 = row_id r1
         \<and> (\<forall>c \<in> set (update_set UpsertBill). cols r2 c = map_of ps2 c)
         \<and> (\<forall>c. c \<notin> set (update_set UpsertBill) \<and> c \<noteq> ''updated_at'' \<longrightarrow> cols r2 c = cols r1 c)
         \<and> (stored UpsertBill ps1 d = [] \<longrightarrow> cols r1 = map_of ps1)"
proof -
  define d1 where "d1 = snd (insert_bill e (JObj b1) d)"
  define d2 where "d2 = snd (insert_bill e (JObj b2) d1)"
  have q: "UpsertBill \<in> {UpsertBill, UpsertMember, UpsertAmendment, UpsertCommittee}" by simp
  have km: "key_match (conflict_target UpsertBill) ps2 = key_match (conflict_target UpsertBill) ps1"
    by (rule key_match_same_key [OF same])
  have kp2: "key_present (conflict_target UpsertBill) ps2"
    using kp same by (simp add: key_present_def list_all_iff)
  have st: "stored UpsertBill ps2 = stored UpsertBill ps1"
    unfolding stored_def km ..
  have i1: "insert_bill e (JObj b1) d = returning_id e UpsertBill ps1 d"
    by (simp add: p1)
  have i2: "insert_bill e (JObj b2) d1 = returning_id e UpsertBill ps2 d1"
    by (simp add: p2)
  define r1 where "r1 = (case stored UpsertBill ps1 d of
       [] \<Rightarrow> \<lparr>row_id = Suc (serial d (table_of UpsertBill)), cols = map_of ps1\<rparr>
     | r # rest \<Rightarrow> update_row (update_set UpsertBill) (Suc (clock d)) ps1 r)"
  have s1: "stored UpsertBill ps1 d1 =
      (case stored UpsertBill ps1 d of
         [] \<Rightarrow> [\<lparr>row_id = Suc (serial d (table_of UpsertBill)), cols = map_of ps1\<rparr>]
       | r # rest \<Rightarrow> update_row (update_set UpsertBill) (Suc (clock d)) ps1 r # rest)"
    unfolding d1_def i1 by (rule stored_returning_id(1) [OF q kp a1])
  have f1: "fst (insert_bill e (JObj b1) d) =
      Inr (Some (case stored UpsertBill ps1 d of
                   [] \<Rightarrow> Suc (serial d (table_of UpsertBill)) | r # rest \<Rightarrow> row_id r))"
    unfolding i1 by (rule stored_returning_id(2) [OF q kp a1])
  have r1: "stored UpsertBill ps1 d1 = [r1]"
    using s1 uniq by (cases "stored UpsertBill ps1 d") (simp_all add: r1_def)
  have id1: "fst (insert_bill e (JObj b1) d) = Inr (Some (row_id r1))"
    unfolding f1 by (cases "stored UpsertBill ps1 d") (simp_all add: r1_def update_row_def)
  have new1: "stored UpsertBill ps1 d = [] \<longrightarrow> cols r1 = map_of ps1"
    by (simp add: r1_def)
  have a2': "db_accepts e d1 UpsertBill ps2" using a2 by (simp only: d1_def)
  have s2: "stored UpsertBill ps2 d2 = [update_row (update_set UpsertBill) (Suc (clock d1)) ps2 r1]"
    using stored_returning_id(1) [OF q kp2 a2'] r1 unfolding d2_def i2 st by simp
  have id2: "fst (insert_bill e (JObj b2) d1) = Inr (Some (row_id r1))"
    using stored_returning_id(2) [OF q kp2 a2'] r1 unfolding i2 st by simp
  let ?r2 = "update_row (update_set UpsertBill) (Suc (clock d1)) ps2 r1"
  have c1: "row_id ?r2 = row_id r1" by (simp add: update_row_def)
  have c2: "\<forall>c \<in> set (update_set UpsertBill). cols ?r2 c = map_of ps2 c"
    by (auto simp: update_row_def)
  have c3: "\<forall>c. c \<notin> set (update_set UpsertBill) \<and> c \<noteq> ''updated_at'' \<longrightarrow> cols ?r2 c = cols r1 c"
    by (simp add: update_row_def)
  have id2': "fst (insert_bill e (JObj b2) d1) = Inr (Some (row_id ?r2))"
    by (simp only: c1 id2)
  show ?thesis
    unfolding d1_def [symmetric] d2_def [symmetric]
    by (intro exI [of _ r1] exI [of _ ?r2] conjI) (fact r1 s2 id1 id2' c1 c2 c3 new1)+
qed

theorem insert_bill_twice_witness:
  "length (stored UpsertBill (projr (bill_params bill_a2)) db_a2) = 1
   \<and> fst (insert_bill demo_env (JObj bill_a2) db_a1)
       = fst (insert_bill demo_env (JObj bill_a) empty_db)"
proof -
  have p1: "bill_params bill_a = Inr (projr (bill_params bill_a))" by code_simp
  have p2: "bill_params bill_a2 = Inr (projr (bill_params bill_a2))" by code_simp
  have kp: "key_present (conflict_target UpsertBill) (projr (bill_params bill_a))"
    by code_simp
  have same: "\<forall>c \<in> set (conflict_target UpsertBill).
                map_of (projr (bill_params bill_a2)) c = map_of (projr (bill_params bill_a)) c"
    by code_simp
  have a1: "db_accepts demo_env empty_db UpsertBill (projr (bill_params bill_a))"
    by (simp add: demo_env_def accept_all_def)
  have a2: "db_accepts demo_env (snd (insert_bill demo_env (JObj bill_a) empty_db)) UpsertBill
              (projr (bill_params bill_a2))"
    by (simp add: demo_env_def accept_all_def)
  have u: "length (stored UpsertBill (projr (bill_params bill_a)) empty_db) \<le> 1"
    by (simp add: stored_def empty_db_def)
  from insert_bill_twice [OF p1 p2 kp same a1 a2 u] show ?thesis
    unfolding db_a1_def db_a2_def
    by (elim exE conjE) (simp only: list.size One_nat_def add_0 simp_thms)
qed

text \<open>
  The claim as stated fails: \<open>sponsors\<close> is not in the \<open>DO UPDATE SET\<close> list.
  After \<open>bill_a\<close> and then \<open>bill_a2\<close> (same key, other title, other sponsors)
  the single row has the title of the second payload and the sponsors of the
  first.
\<close>

theorem insert_bill_twice_counterexample:
  "length (tables db_a2 ''bills'') = 1
   \<and> cols (hd (tables db_a2 ''bills'')) ''title'' = Some (Plain (JStr ''First act, amended''))
   \<and> cols (hd (tables db_a2 ''bills'')) ''sponsors'' = Some (Dumps (JArr [JStr ''A000001'']))
   \<and> map_of (projr (bill_params bill_a2)) ''sponsors'' = Some (Dumps (JArr [JStr ''B000002'']))"
  by code_simp

text \<open>
  Claim C2, as amended. \<open>insert_bill\<close> returns the identifier alone: when the
  database executes the statement, the identifier of the stored row of that
  natural key if there is one, else the next value of the sequence; \<open>None\<close>
  when the database refuses the statement. Nothing in the result tells a
  created row from an updated one.
\<close>

theorem insert_bill_returns_id:
  assumes "bill_params b = Inr ps"
  shows "fst (insert_bill e (JObj b) d) =
           (if db_accepts e d UpsertBill ps
            then Inr (Some (case stored UpsertBill ps d of
                              [] \<Rightarrow> Suc (serial d ''bills'') | r # rest \<Rightarrow> row_id r))
            else Inr None)"
  using assms returning_id_result [of UpsertBill e ps d] by (simp split: list.splits)

theorem insert_bill_returns_id_witness:
  "fst (insert_bill demo_env (JObj bill_a2) db_a1) = Inr (Some 1)
   \<and> fst (insert_bill strict_env (JObj bill_no_type) db_a1) = Inr None"
proof -
  have p2: "bill_params bill_a2 = Inr (projr (bill_params bill_a2))" by code_simp
  have p3: "bill_params bill_no_type = Inr (projr (bill_params bill_no_type))" by code_simp
  have v: "(if db_accepts demo_env db_a1 UpsertBill (projr (bill_params bill_a2))
            then Inr (Some (case stored UpsertBill (projr (bill_params bill_a2)) db_a1 of
                              [] \<Rightarrow> Suc (serial db_a1 ''bills'') | r # rest \<Rightarrow> row_id r))
            else Inr None) = (Inr (Some 1) :: exn + nat option)"
    by code_simp
  have r: "\<not> db_accepts strict_env db_a1 UpsertBill (projr (bill_params bill_no_type))"
    by code_simp
  show ?thesis
    using insert_bill_returns_id [OF p2, of demo_env db_a1]
      insert_bill_returns_id [OF p3, of strict_env db_a1] v r
    by simp
qed

text \<open>
  The claim as stated fails: the first ingestion of a key and the second return
  the same value, and the loop of \<open>ingest_bills\<close> counts both as created.
\<close>

theorem insert_bill_returns_id_counterexample:
  "fst (insert_bill demo_env (JObj bill_a) empty_db) = Inr (Some 1)
   \<and> fst (insert_bill demo_env (JObj bill_a2) db_a1) = Inr (Some 1)
   \<and> self_stats (process_items (bill_item demo_env) [JObj bill_a, JObj bill_a2] new_world)
       = \<lparr>processed = 2, created = 2, updated = 0, failed = 0, errors = []\<rparr>"
  by code_simp

section \<open>The ingestion runs\<close>

lemma consistent_zero: "consistent zero_stats 0"
  by (simp add: consistent_def zero_stats_def)

lemma consistent_count_item: "consistent st n \<Longrightarrow> consistent (count_item r st) (Suc n)"
  by (cases r) (auto simp: consistent_def)

lemma process_items_consistent:
  "keeps_stats f \<Longrightarrow> consistent (self_stats w) n \<Longrightarrow>
   consistent (self_stats (process_items f xs w)) (n + length xs)"
proof (induction xs arbitrary: w n)
  case Nil
  then show ?case by simp
next
  case (Cons x xs)
  obtain r w' where b: "f x w = (r, w')" by (cases "f x w")
  have s: "self_stats w' = self_stats w"
    using Cons.prems(1) b by (metis keeps_stats_def snd_conv)
  have "consistent (self_stats (w'\<lparr>self_stats := count_item r (self_stats w')\<rparr>)) (Suc n)"
    using Cons.prems(2) s by (simp add: consistent_count_item)
  from Cons.IH [OF Cons.prems(1) this] show ?case by (simp add: b)
qed

lemma process_items_requests:
  "keeps_requests f \<Longrightarrow> requests (process_items f xs w) = requests w"
proof (induction xs arbitrary: w)
  case Nil
  then show ?case by simp
next
  case (Cons x xs)
  obtain r w' where b: "f x w = (r, w')" by (cases "f x w")
  have s: "requests w' = requests w"
    using Cons.prems b by (metis keeps_requests_def snd_conv)
  show ?case using Cons.IH [OF Cons.prems] s by (simp add: b)
qed

lemma store_with_stats: "self_stats (snd (store_with f w)) = self_stats w"
  by (simp add: store_with_def split: prod.splits)

lemma store_with_requests: "requests (snd (store_with f w)) = requests w"
  by (simp add: store_with_def split: prod.splits)

lemma enrich_bill_stats: "self_stats (snd (enrich_bill e x w)) = self_stats w"
  by (cases x) (auto simp: call_client_def Let_def split: json.splits)

lemma keeps_stats_bill: "keeps_stats (bill_item e)"
  unfolding keeps_stats_def bill_item_def
  by (auto split: prod.splits sum.splits simp: store_with_stats)
     (metis enrich_bill_stats snd_conv)+

lemma keeps_stats_member: "keeps_stats (member_item e)"
  unfolding keeps_stats_def member_item_def
  by (auto split: prod.splits sum.splits simp: store_with_stats call_client_def)

lemma keeps_stats_amendment: "keeps_stats (amendment_item e)"
  by (simp add: keeps_stats_def amendment_item_def store_with_stats)

lemma keeps_stats_committee: "keeps_stats (committee_item e)"
  by (simp add: keeps_stats_def committee_item_def store_with_stats)

lemma keeps_requests_committee: "keeps_requests (committee_item e)"
  by (simp add: keeps_requests_def committee_item_def store_with_requests)

lemma start_run_world:
  "start_run e ep p w = (r, w0) \<Longrightarrow> requests w0 = requests w \<and> self_stats w0 = zero_stats"
  by (auto simp: start_run_def split: prod.splits)

lemma start_run_forgets: "start_run e ep p (w\<lparr>self_stats := s\<rparr>) = start_run e ep p w"
  by (simp add: start_run_def)

lemma finish_run_stats: "fst (finish_run e l w) = Inr st \<Longrightarrow> st = self_stats w"
  by (auto simp: finish_run_def Let_def split: prod.splits sum.splits)

lemma fetch_and_process_consistent:
  assumes "keeps_stats f" and "fetch_and_process e f ep mp w = Some w1"
    and "consistent (self_stats w) n"
  shows "\<exists>items reqs. fetch_paginated e ep 250 mp (requests w) = Some (items, reqs)
           \<and> w1 = process_items f items (w\<lparr>requests := reqs\<rparr>)
           \<and> consistent (self_stats w1) (n + length items)"
proof -
  from assms(2) obtain items reqs where
    f: "fetch_paginated e ep 250 mp (requests w) = Some (items, reqs)"
    and w1: "w1 = process_items f items (w\<lparr>requests := reqs\<rparr>)"
    by (auto simp: fetch_and_process_def split: option.splits)
  have "consistent (self_stats (w\<lparr>requests := reqs\<rparr>)) n" using assms(3) by simp
  from process_items_consistent [OF assms(1) this] f w1 show ?thesis by blast
qed

lemma single_run_consistent:
  assumes ks: "keeps_stats f"
    and run: "returned (case start_run e name p w of
                 (Inl ex, w0) \<Rightarrow> Some (Inl ex, w0)
               | (Inr log_id, w0) \<Rightarrow>
                   (case fetch_and_process e f ep mp w0 of
                      None \<Rightarrow> None
                    | Some w1 \<Rightarrow> Some (finish_run e log_id w1))) = Some (Inr st)"
  shows "\<exists>items reqs. fetch_paginated e ep 250 mp (requests w) = Some (items, reqs)
           \<and> consistent st (length items)"
proof -
  obtain r w0 where s: "start_run e name p w = (r, w0)" by (cases "start_run e name p w")
  from run s obtain log_id w1 w' where r: "r = Inr log_id"
    and fp: "fetch_and_process e f ep mp w0 = Some w1"
    and fin: "finish_run e log_id w1 = (Inr st, w')"
    by (auto simp: returned_def split: sum.splits option.splits)
  from start_run_world [OF s] have rq: "requests w0 = requests w"
    and z: "consistent (self_stats w0) 0" by (simp_all add: consistent_zero)
  from fetch_and_process_consistent [OF ks fp z] obtain items reqs where
    f: "fetch_paginated e ep 250 mp (requests w0) = Some (items, reqs)"
    and c: "consistent (self_stats w1) (0 + length items)" by blast
  from fin have "st = self_stats w1" using finish_run_stats [of e log_id w1 st] by simp
  with f c rq show ?thesis by auto
qed

lemma committees_run_consistent:
  assumes run: "returned (ingest_committees e mp w) = Some (Inr st)"
  shows "\<exists>items1 reqs1 items2 reqs2.
           fetch_paginated e ''committee/house'' 250 mp (requests w) = Some (items1, reqs1)
         \<and> fetch_paginated e ''committee/senate'' 250 mp reqs1 = Some (items2, reqs2)
         \<and> consistent st (length items1 + length items2)"
proof -
  obtain r w0 where s: "start_run e ''committees'' JNull w = (r, w0)"
    by (cases "start_run e ''committees'' JNull w")
  from run s obtain log_id w1 w2 w' where r: "r = Inr log_id"
    and fp1: "fetch_and_process e (committee_item e) ''committee/house'' mp w0 = Some w1"
    and fp2: "fetch_and_process e (committee_item e) ''committee/senate'' mp w1 = Some w2"
    and fin: "finish_run e log_id w2 = (Inr st, w')"
    by (auto simp: returned_def ingest_committees_def split: sum.splits option.splits)
  from start_run_world [OF s] have rq: "requests w0 = requests w"
    and z: "consistent (self_stats w0) 0" by (simp_all add: consistent_zero)
  from fetch_and_process_consistent [OF keeps_stats_committee fp1 z] obtain items1 reqs1 where
    f1: "fetch_paginated e ''committee/house'' 250 mp (requests w0) = Some (items1, reqs1)"
    and w1: "w1 = process_items (committee_item e) items1 (w0\<lparr>requests := reqs1\<rparr>)"
    and c1: "consistent (self_stats w1) (0 + length items1)" by blast
  have rq1: "requests w1 = reqs1"
    unfolding w1 by (simp add: process_items_requests [OF keeps_requests_committee])
  from fetch_and_process_consistent [OF keeps_stats_committee fp2 c1] obtain items2 reqs2 where
    f2: "fetch_paginated e ''committee/senate'' 250 mp (requests w1) = Some (items2, reqs2)"
    and c2: "consistent (self_stats w2) (0 + length items1 + length items2)" by blast
  from fin have "st = self_stats w2" using finish_run_stats [of e log_id w2 st] by simp
  with f1 f2 c2 rq rq1 show ?thesis by auto
qed

text \<open>
  Claim C9. Whenever one of the four ingestion methods returns its statistics,
  these satisfy processed = created + updated, the error list is as long as
  the failed counter says, and processed + failed is the number of items the
  pagination fetch returned to that call (for the committees, of both
  fetches). The result of a call does not depend on the statistics the
  ingestor held before: they are set to zero at the start.
\<close>

theorem ingest_stats_consistent:
  "(returned (ingest_bills e congress bill_type from_date to_date max_pages w) = Some (Inr st) \<longrightarrow>
      (\<exists>items reqs.
         fetch_paginated e (bill_endpoint congress bill_type from_date to_date) 250 max_pages
           (requests w) = Some (items, reqs)
         \<and> consistent st (length items)))
   \<and> (returned (ingest_members e congress max_pages w) = Some (Inr st) \<longrightarrow>
      (\<exists>items reqs.
         fetch_paginated e
           (if truthy (opt_int congress) then ''member/congress/'' @ str_int (the congress)
            else ''member'') 250 max_pages (requests w) = Some (items, reqs)
         \<and> consistent st (length items)))
   \<and> (returned (ingest_amendments e congress max_pages w) = Some (Inr st) \<longrightarrow>
      (\<exists>items reqs.
         fetch_paginated e
           (if truthy (opt_int congress) then ''amendment/'' @ str_int (the congress)
            else ''amendment'') 250 max_pages (requests w) = Some (items, reqs)
         \<and> consistent st (length items)))
   \<and> (returned (ingest_committees e max_pages w) = Some (Inr st) \<longrightarrow>
      (\<exists>items1 reqs1 items2 reqs2.
         fetch_paginated e ''committee/house'' 250 max_pages (requests w) = Some (items1, reqs1)
         \<and> fetch_paginated e ''committee/senate'' 250 max_pages reqs1 = Some (items2, reqs2)
         \<and> consistent st (length items1 + length items2)))
   \<and> ingest_bills e congress bill_type from_date to_date max_pages (w\<lparr>self_stats := s\<rparr>)
       = ingest_bills e congress bill_type from_date to_date max_pages w
   \<and> ingest_members e congress max_pages (w\<lparr>self_stats := s\<rparr>)
       = ingest_members e congress max_pages w
   \<and> ingest_amendments e congress max_pages (w\<lparr>self_stats := s\<rparr>)
       = ingest_amendments e congress max_pages w
   \<and> ingest_committees e max_pages (w\<lparr>self_stats := s\<rparr>) = ingest_committees e max_pages w"
proof (intro conjI impI)
  assume "returned (ingest_bills e congress bill_type from_date to_date max_pages w)
          = Some (Inr st)"
  then show "\<exists>items reqs.
         fetch_paginated e (bill_endpoint congress bill_type from_date to_date) 250 max_pages
           (requests w) = Some (items, reqs) \<and> consistent st (length items)"
    unfolding ingest_bills_def by (rule single_run_consistent [OF keeps_stats_bill])
next
  assume "returned (ingest_members e congress max_pages w) = Some (Inr st)"
  then show "\<exists>items reqs.
         fetch_paginated e
           (if truthy (opt_int congress) then ''member/congress/'' @ str_int (the congress)
            else ''member'') 250 max_pages (requests w) = Some (items, reqs)
         \<and> consistent st (length items)"
    unfolding ingest_members_def by (rule single_run_consistent [OF keeps_stats_member])
next
  assume "returned (ingest_amendments e congress max_pages w) = Some (Inr st)"
  then show "\<exists>items reqs.
         fetch_paginated e
           (if truthy (opt_int congress) then ''amendment/'' @ str_int (the congress)
            else ''amendment'') 250 max_pages (requests w) = Some (items, reqs)
         \<and> consistent st (length items)"
    unfolding ingest_amendments_def by (rule single_run_consistent [OF keeps_stats_amendment])
next
  assume "returned (ingest_committees e max_pages w) = Some (Inr st)"
  then show "\<exists>items1 reqs1 items2 reqs2.
         fetch_paginated e ''committee/house'' 250 max_pages (requests w) = Some (items1, reqs1)
         \<and> fetch_paginated e ''committee/senate'' 250 max_pages reqs1 = Some (items2, reqs2)
         \<and> consistent st (length items1 + length items2)"
    by (rule committees_run_consistent)
qed (simp_all add: ingest_bills_def ingest_members_def ingest_amendments_def
       ingest_committees_def start_run_forgets)

theorem ingest_stats_consistent_witness:
  "returned (ingest_bills demo_env (Some 118) (Some ''hr'') None None None new_world)
     = Some (Inr \<lparr>processed = 4, created = 4, updated = 0, failed = 0, errors = []\<rparr>)
   \<and> consistent \<lparr>processed = 4, created = 4, updated = 0, failed = 0, errors = []\<rparr> 4
   \<and> returned (ingest_members demo_env None None new_world)
     = Some (Inr \<lparr>processed = 1, created = 1, updated = 0, failed = 0, errors = []\<rparr>)
   \<and> consistent \<lparr>processed = 1, created = 1, updated = 0, failed = 0, errors = []\<rparr> 1
   \<and> returned (ingest_amendments demo_env None None new_world)
     = Some (Inr \<lparr>processed = 1, created = 1, updated = 0, failed = 1,
                  errors = [AttributeError]\<rparr>)
   \<and> consistent \<lparr>processed = 1, created = 1, updated = 0, failed = 1,
                  errors = [AttributeError]\<rparr> 2
   \<and> returned (ingest_committees demo_env None new_world)
     = Some (Inr \<lparr>processed = 1, created = 1, updated = 0, failed = 0, errors = []\<rparr>)
   \<and> consistent \<lparr>processed = 1, created = 1, updated = 0, failed = 0, errors = []\<rparr> (1 + 0)"
proof -
  have b: "returned (ingest_bills demo_env (Some 118) (Some ''hr'') None None None new_world)
     = Some (Inr \<lparr>processed = 4, created = 4, updated = 0, failed = 0, errors = []\<rparr>)"
    by code_simp
  have fb: "fetch_paginated demo_env (bill_endpoint (Some 118) (Some ''hr'') None None) 250 None
              (requests new_world)
            = Some ([JObj bill_a, JObj bill_b, JObj bill_c, JObj bill_d],
                    [JStr ''bill/118/hr?limit=250&offset=0'',
                     JStr ''bill/118/hr?offset=250&limit=250''])"
    by code_simp
  have m: "returned (ingest_members demo_env None None new_world)
     = Some (Inr \<lparr>processed = 1, created = 1, updated = 0, failed = 0, errors = []\<rparr>)"
    by code_simp
  have fm: "fetch_paginated demo_env
              (if truthy (opt_int None) then ''member/congress/'' @ str_int (the None)
               else ''member'') 250 None (requests new_world)
            = Some ([JObj member_a], [JStr ''member?limit=250&offset=0''])"
    by code_simp
  have a: "returned (ingest_amendments demo_env None None new_world)
     = Some (Inr \<lparr>processed = 1, created = 1, updated = 0, failed = 1,
                  errors = [AttributeError]\<rparr>)"
    by code_simp
  have fa: "fetch_paginated demo_env
              (if truthy (opt_int None) then ''amendment/'' @ str_int (the None)
               else ''amendment'') 250 None (requests new_world)
            = Some ([JObj amendment_a, JObj amendment_null_bill],
                    [JStr ''amendment?limit=250&offset=0''])"
    by code_simp
  have c: "returned (ingest_committees demo_env None new_world)
     = Some (Inr \<lparr>processed = 1, created = 1, updated = 0, failed = 0, errors = []\<rparr>)"
    by code_simp
  have fc1: "fetch_paginated demo_env ''committee/house'' 250 None (requests new_world)
            = Some ([JObj committee_a], [JStr ''committee/house?limit=250&offset=0''])"
    by code_simp
  have fc2: "fetch_paginated demo_env ''committee/senate'' 250 None
               [JStr ''committee/house?limit=250&offset=0'']
            = Some ([], [JStr ''committee/house?limit=250&offset=0'',
                         JStr ''committee/senate?limit=250&offset=0''])"
    by code_simp
  from ingest_stats_consistent [where e = demo_env and congress = "Some 118"
        and bill_type = "Some ''hr''" and from_date = None and to_date = None
        and max_pages = None and w = new_world, THEN conjunct1, rule_format, OF b]
  obtain items1 reqs1 where
    "fetch_paginated demo_env (bill_endpoint (Some 118) (Some ''hr'') None None) 250 None
       (requests new_world) = Some (items1, reqs1)"
    and k1: "consistent \<lparr>processed = 4, created = 4, updated = 0, failed = 0, errors = []\<rparr>
               (length items1)"
    by blast
  then have "items1 = [JObj bill_a, JObj bill_b, JObj bill_c, JObj bill_d]"
    unfolding fb by simp
  with k1 have 1:
    "consistent \<lparr>processed = 4, created = 4, updated = 0, failed = 0, errors = []\<rparr> 4"
    by (simp add: eval_nat_numeral)
  from ingest_stats_consistent [where e = demo_env and congress = None
        and max_pages = None and w = new_world,
        THEN conjunct2, THEN conjunct1, rule_format, OF m]
  obtain items2 reqs2 where
    "fetch_paginated demo_env
       (if truthy (opt_int None) then ''member/congress/'' @ str_int (the None)
        else ''member'') 250 None (requests new_world) = Some (items2, reqs2)"
    and k2: "consistent \<lparr>processed = 1, created = 1, updated = 0, failed = 0, errors = []\<rparr>
               (length items2)"
    by blast
  then have "items2 = [JObj member_a]"
    unfolding fm by simp
  with k2 have 2:
    "consistent \<lparr>processed = 1, created = 1, updated = 0, failed = 0, errors = []\<rparr> 1"
    by (simp add: eval_nat_numeral)
  from ingest_stats_consistent [where e = demo_env and congress = None
        and max_pages = None and w = new_world,
        THEN conjunct2, THEN conjunct2, THEN conjunct1, rule_format, OF a]
  obtain items3 reqs3 where
    "fetch_paginated demo_env
       (if truthy (opt_int None) then ''amendment/'' @ str_int (the None)
        else ''amendment'') 250 None (requests new_world) = Some (items3, reqs3)"
    and k3: "consistent \<lparr>processed = 1, created = 1, updated = 0, failed = 1,
                           errors = [AttributeError]\<rparr> (length items3)"
    by blast
  then have "items3 = [JObj amendment_a, JObj amendment_null_bill]"
    unfolding fa by simp
  with k3 have 3:
    "consistent \<lparr>processed = 1, created = 1, updated = 0, failed = 1,
                  errors = [AttributeError]\<rparr> 2"
    by (simp add: eval_nat_numeral)
  from ingest_stats_consistent [where e = demo_env and max_pages = None and w = new_world,
        THEN conjunct2, THEN conjunct2, THEN conjunct2, THEN conjunct1, rule_format, OF c]
  obtain items4 reqs4 items5 reqs5 where
    f4: "fetch_paginated demo_env ''committee/house'' 250 None (requests new_world)
         = Some (items4, reqs4)"
    and f5: "fetch_paginated demo_env ''committee/senate'' 250 None reqs4 = Some (items5, reqs5)"
    and k4: "consistent \<lparr>processed = 1, created = 1, updated = 0, failed = 0, errors = []\<rparr>
               (length items4 + length items5)"
    by blast
  from f4 have i4: "items4 = [JObj committee_a]"
    and r4: "reqs4 = [JStr ''committee/house?limit=250&offset=0'']"
    unfolding fc1 by simp_all
  from f5 have "items5 = []" unfolding r4 fc2 by simp
  with k4 i4 have 4:
    "consistent \<lparr>processed = 1, created = 1, updated = 0, failed = 0, errors = []\<rparr> (1 + 0)"
    by (simp add: eval_nat_numeral)
  from b m a c 1 2 3 4 show ?thesis by blast
qed

text \<open>
  Claim C3. The code at the batch of the claim: three bills of which the
  second has no \<open>type\<close>, a database that refuses an incomplete natural key.
  \<open>insert_bill\<close> swallows the refusal and returns \<open>None\<close>, which the loop
  counts as updated and processed: failed stays 0 and the error list empty.
\<close>

theorem ingest_bills_missing_type:
  "returned (ingest_bills strict_env (Some 118) None None None None new_world)
     = Some (Inr \<lparr>processed = 3, created = 2, updated = 1, failed = 0, errors = []\<rparr>)
   \<and> stored_count ''bills'' (ingest_bills strict_env (Some 118) None None None None new_world) = 2
   \<and> logged 1 (ingest_bills strict_env (Some 118) None None None None new_world)
     = [(Some (Plain (JStr ''completed'')), Some (Plain JNull))]"
  by code_simp

section \<open>The end of a run\<close>

lemma first_url_truthy: "truthy (first_url ep limit)"
  by (simp add: first_url_def)


lemma run_outcome_clock: "run_outcome i (d\<lparr>clock := n\<rparr>) = run_outcome i d"
  by (simp add: run_outcome_def)

lemma update_sync_log_rejected:
  "\<not> db_accepts e d UpdateSyncLog
       (update_sync_log_params log_id status rp rc ru rf msg (clock d)) \<Longrightarrow>
   update_sync_log e log_id status rp rc ru rf msg d = (Inl DbError, d\<lparr>clock := Suc (clock d)\<rparr>)"
  by (simp add: update_sync_log_def execute_sql_def Let_def)





text \<open>
  With \<open>None\<close> or an integer for \<open>max_pages\<close>, the method that takes a cap of
  any type is \<open>ingest_bills\<close> as modelled above: the fetch cannot raise there.
\<close>

lemma ingest_bills_any_typed:
  "ingest_bills_any e congress bill_type from_date to_date (opt_int max_pages) w
   = ingest_bills e congress bill_type from_date to_date max_pages w"
proof -
  have t: "truthy (first_url ep 250)" for ep by (rule first_url_truthy)
  have f: "fetch_paginated_any e ep 250 (opt_int max_pages) reqs
           = map_option Inr (fetch_paginated e ep 250 max_pages reqs)" for ep reqs
  proof (cases max_pages)
    case None
    then show ?thesis by (simp add: fetch_paginated_any_def opt_int_def)
  next
    case (Some m)
    then show ?thesis by (simp add: fetch_paginated_any_def opt_int_def)
  qed
  show ?thesis
    unfolding ingest_bills_any_def ingest_bills_def fetch_and_process_def f
    by (auto split: prod.splits sum.splits option.splits)
qed





section \<open>Exceptions of the insert methods\<close>

lemma law_field_ok:
  "\<not> truthy (dict_get b ''laws'') \<or> (\<exists>x xs. dict_get b ''laws'' = JArr (JObj x # xs)) \<Longrightarrow>
   \<exists>v. law_field b k = Inr v"
  by (auto simp: law_field_def dict_get_def dict_get_or_def split: option.splits)

lemma bill_params_ok:
  assumes "\<not> truthy (dict_get b ''laws'') \<or> (\<exists>x xs. dict_get b ''laws'' = JArr (JObj x # xs))"
  shows "\<exists>ps. bill_params b = Inr ps"
proof -
  from law_field_ok [OF assms] obtain v v' where
    "law_field b ''number'' = Inr v" and "law_field b ''type'' = Inr v'" by blast
  then show ?thesis by (simp add: bill_params_def)
qed

lemma amended_bill_field_ok:
  "\<not> has_key a ''amendedBill'' \<or> (\<exists>x. dict_get a ''amendedBill'' = JObj x) \<Longrightarrow>
   \<exists>v. amended_bill_field a k = Inr v"
  by (auto simp: amended_bill_field_def dict_get_def dict_get_or_def has_key_def
      split: option.splits)

lemma amendment_params_ok:
  assumes "\<not> has_key a ''amendedBill'' \<or> (\<exists>x. dict_get a ''amendedBill'' = JObj x)"
  shows "\<exists>ps. amendment_params a = Inr ps"
proof -
  from amended_bill_field_ok [OF assms] obtain v1 v2 v3 where
    "amended_bill_field a ''congress'' = Inr v1" and "amended_bill_field a ''type'' = Inr v2"
    and "amended_bill_field a ''number'' = Inr v3" by blast
  then show ?thesis by (simp add: amendment_params_def)
qed

lemma returning_id_never_raises: "\<exists>r. fst (returning_id e q ps d) = Inr r"
  by (simp add: returning_id_cases)

lemma returning_id_rejected:
  "\<not> db_accepts e d q ps \<Longrightarrow> fst (returning_id e q ps d) = Inr None"
  by (simp add: returning_id_cases)

text \<open>
  Claim C10, as amended. An error of the database while the statement runs
  never leaves an insert method: it is caught and the method returns \<open>None\<close>.
  On a dict, \<open>insert_member\<close> and \<open>insert_committee\<close> never raise;
  \<open>insert_bill\<close> does not raise when \<open>laws\<close> is absent, false, or a list
  whose first element is a dict; \<open>insert_amendment\<close> does not raise when
  \<open>amendedBill\<close> is absent or a dict. Outside these shapes the parameters are
  built before the \<open>try\<close> and the exception reaches the caller.
\<close>

theorem insert_catches_db_errors:
  "(\<exists>r. fst (insert_member e (JObj m) d) = Inr r)
   \<and> (\<exists>r. fst (insert_committee e (JObj c) d) = Inr r)
   \<and> (\<not> truthy (dict_get b ''laws'') \<or> (\<exists>x xs. dict_get b ''laws'' = JArr (JObj x # xs))
        \<longrightarrow> (\<exists>r. fst (insert_bill e (JObj b) d) = Inr r))
   \<and> (\<not> has_key a ''amendedBill'' \<or> (\<exists>x. dict_get a ''amendedBill'' = JObj x)
        \<longrightarrow> (\<exists>r. fst (insert_amendment e (JObj a) d) = Inr r))
   \<and> (\<not> db_accepts e d UpsertMember (member_params m)
        \<longrightarrow> fst (insert_member e (JObj m) d) = Inr None)
   \<and> (\<not> db_accepts e d UpsertCommittee (committee_params c)
        \<longrightarrow> fst (insert_committee e (JObj c) d) = Inr None)
   \<and> (\<forall>ps. bill_params b = Inr ps \<and> \<not> db_accepts e d UpsertBill ps
        \<longrightarrow> fst (insert_bill e (JObj b) d) = Inr None)
   \<and> (\<forall>ps. amendment_params a = Inr ps \<and> \<not> db_accepts e d UpsertAmendment ps
        \<longrightarrow> fst (insert_amendment e (JObj a) d) = Inr None)
   \<and> (\<forall>ex. bill_params b = Inl ex \<longrightarrow> insert_bill e (JObj b) d = (Inl ex, d))
   \<and> (\<forall>ex. amendment_params a = Inl ex \<longrightarrow> insert_amendment e (JObj a) d = (Inl ex, d))"
proof (intro conjI impI allI)
  show "\<exists>r. fst (insert_member e (JObj m) d) = Inr r"
    by (simp add: returning_id_never_raises)
  show "\<exists>r. fst (insert_committee e (JObj c) d) = Inr r"
    by (simp add: returning_id_never_raises)
next
  assume "\<not> truthy (dict_get b ''laws'') \<or> (\<exists>x xs. dict_get b ''laws'' = JArr (JObj x # xs))"
  from bill_params_ok [OF this] obtain ps where "bill_params b = Inr ps" by blast
  then show "\<exists>r. fst (insert_bill e (JObj b) d) = Inr r"
    by (simp add: returning_id_never_raises)
next
  assume "\<not> has_key a ''amendedBill'' \<or> (\<exists>x. dict_get a ''amendedBill'' = JObj x)"
  from amendment_params_ok [OF this] obtain ps where "amendment_params a = Inr ps" by blast
  then show "\<exists>r. fst (insert_amendment e (JObj a) d) = Inr r"
    by (simp add: returning_id_never_raises)
qed (simp_all add: returning_id_rejected)

theorem insert_catches_db_errors_witness:
  "fst (insert_member strict_env (JObj member_no_id) empty_db) = Inr None
   \<and> fst (insert_committee strict_env (JObj committee_no_code) empty_db) = Inr None
   \<and> fst (insert_bill strict_env (JObj bill_no_type) empty_db) = Inr None
   \<and> fst (insert_amendment strict_env (JObj amendment_no_type) empty_db) = Inr None
   \<and> insert_bill strict_env (JObj bill_odd_laws) empty_db = (Inl AttributeError, empty_db)"
proof -
  note T = insert_catches_db_errors [where e = strict_env and d = empty_db
      and m = member_no_id and c = committee_no_code and b = bill_no_type
      and a = amendment_no_type]
  note U = insert_catches_db_errors [where e = strict_env and d = empty_db
      and b = bill_odd_laws]
  have m: "\<not> db_accepts strict_env empty_db UpsertMember (member_params member_no_id)"
    by code_simp
  have c: "\<not> db_accepts strict_env empty_db UpsertCommittee (committee_params committee_no_code)"
    by code_simp
  have b: "bill_params bill_no_type = Inr (projr (bill_params bill_no_type))
           \<and> \<not> db_accepts strict_env empty_db UpsertBill (projr (bill_params bill_no_type))"
    by code_simp
  have a: "amendment_params amendment_no_type = Inr (projr (amendment_params amendment_no_type))
           \<and> \<not> db_accepts strict_env empty_db UpsertAmendment
                 (projr (amendment_params amendment_no_type))"
    by code_simp
  have l: "\<not> truthy (dict_get bill_no_type ''laws'')
           \<or> (\<exists>x xs. dict_get bill_no_type ''laws'' = JArr (JObj x # xs))"
    by (rule disjI1) code_simp
  have k: "\<not> has_key amendment_no_type ''amendedBill''
           \<or> (\<exists>x. dict_get amendment_no_type ''amendedBill'' = JObj x)"
    by (rule disjI1) code_simp
  have o: "bill_params bill_odd_laws = Inl AttributeError" by code_simp
  have 1: "fst (insert_member strict_env (JObj member_no_id) empty_db) = Inr None"
    by (rule T [THEN conjunct2, THEN conjunct2, THEN conjunct2, THEN conjunct2, THEN conjunct1,
          rule_format, OF m])
  have 2: "fst (insert_committee strict_env (JObj committee_no_code) empty_db) = Inr None"
    by (rule T [THEN conjunct2, THEN conjunct2, THEN conjunct2, THEN conjunct2, THEN conjunct2,
          THEN conjunct1, rule_format, OF c])
  have 3: "fst (insert_bill strict_env (JObj bill_no_type) empty_db) = Inr None"
    by (rule T [THEN conjunct2, THEN conjunct2, THEN conjunct2, THEN conjunct2, THEN conjunct2,
          THEN conjunct2, THEN conjunct1, rule_format, OF b])
  have 4: "fst (insert_amendment strict_env (JObj amendment_no_type) empty_db) = Inr None"
    by (rule T [THEN conjunct2, THEN conjunct2, THEN conjunct2, THEN conjunct2, THEN conjunct2,
          THEN conjunct2, THEN conjunct2, THEN conjunct1, rule_format, OF a])
  have 5: "insert_bill strict_env (JObj bill_odd_laws) empty_db = (Inl AttributeError, empty_db)"
    by (rule U [THEN conjunct2, THEN conjunct2, THEN conjunct2, THEN conjunct2, THEN conjunct2,
          THEN conjunct2, THEN conjunct2, THEN conjunct2, THEN conjunct1, rule_format, OF o])
  have "\<exists>r. fst (insert_bill strict_env (JObj bill_no_type) empty_db) = Inr r"
    by (rule T [THEN conjunct2, THEN conjunct2, THEN conjunct1, rule_format, OF l])
  moreover have "\<exists>r. fst (insert_amendment strict_env (JObj amendment_no_type) empty_db) = Inr r"
    by (rule T [THEN conjunct2, THEN conjunct2, THEN conjunct2, THEN conjunct1, rule_format, OF k])
  ultimately show ?thesis using 1 2 3 4 5 by (intro conjI)
qed

text \<open>
  The claim as stated fails: these dicts make an insert method raise. An
  amendment whose \<open>amendedBill\<close> is \<open>null\<close>, and a bill whose \<open>laws\<close> is a
  list of strings, raise \<open>AttributeError\<close> while the parameters are built,
  before the \<open>try\<close>.
\<close>

theorem insert_catches_db_errors_counterexample:
  "fst (insert_amendment demo_env (JObj amendment_null_bill) empty_db) = Inl AttributeError
   \<and> fst (insert_bill demo_env (JObj bill_odd_laws) empty_db) = Inl AttributeError"
  by code_simp

section \<open>The detail fetch\<close>





end
